theory Spec2Isabelle
  imports Complex_Main "HOL-Library.Word" "HOL-Library.Sublist" "HOL-Library.Multiset"
begin

section \<open>Text, bytes and exceptions\<close>

text \<open>
  A Python \<^verbatim>\<open>str\<close> is a sequence of Unicode code points, a \<^verbatim>\<open>bytes\<close> object a
  sequence of octets. ASCII literals of the source are written with \<open>lit\<close>.
\<close>

type_synonym pystr = "nat list"

type_synonym bytes = "8 word list"

definition lit :: "string \<Rightarrow> pystr" where
  "lit s = map of_char s"

text \<open>
  \<^verbatim>\<open>str.isspace\<close> on one code point, as \<^verbatim>\<open>str.strip()\<close> uses it: the ASCII controls
  9 to 13 and 28 to 31, the space, and the Unicode white space characters.
\<close>

definition isspace :: "nat \<Rightarrow> bool" where
  "isspace c \<longleftrightarrow>
     (9 \<le> c \<and> c \<le> 13) \<or> (28 \<le> c \<and> c \<le> 32) \<or> c = 133 \<or> c = 160 \<or> c = 5760 \<or>
     (8192 \<le> c \<and> c \<le> 8202) \<or> c = 8232 \<or> c = 8233 \<or> c = 8239 \<or> c = 8287 \<or> c = 12288"

definition strip :: "pystr \<Rightarrow> pystr" where
  "strip s = rev (dropWhile isspace (rev (dropWhile isspace s)))"

text \<open>\<^verbatim>\<open>sub in s\<close> on strings is the contiguous-sublist test.\<close>

definition contains :: "pystr \<Rightarrow> pystr \<Rightarrow> bool" where
  "contains s sub \<longleftrightarrow> sublist sub s"

text \<open>\<^verbatim>\<open>sep.join(parts)\<close>.\<close>

fun join :: "pystr \<Rightarrow> pystr list \<Rightarrow> pystr" where
  "join sep [] = []"
| "join sep [x] = x"
| "join sep (x # y # ys) = x @ sep @ join sep (y # ys)"

text \<open>\<^verbatim>\<open>str(n)\<close> for an integer (as an f-string formats it) and for a boolean.\<close>

fun str_nat :: "nat \<Rightarrow> pystr" where
  "str_nat n = (if n < 10 then [48 + n] else str_nat (n div 10) @ [48 + n mod 10])"

definition str_int :: "int \<Rightarrow> pystr" where
  "str_int i = (if i < 0 then 45 # str_nat (nat (- i)) else str_nat (nat i))"

definition str_bool :: "bool \<Rightarrow> pystr" where
  "str_bool b = (if b then lit ''True'' else lit ''False'')"

text \<open>
  An instance of Python's \<^verbatim>\<open>Exception\<close> class, the class that every
  \<^verbatim>\<open>except Exception\<close> of the source catches. Only its \<^verbatim>\<open>repr\<close> is ever used.
\<close>

datatype exn = PyException (repr: pystr)

section \<open>The host: tools, processes, codecs\<close>

text \<open>
  What \<^verbatim>\<open>subprocess.run(cmd, stdout=PIPE, stderr=PIPE, timeout=timeout, check=False,
  text=False, stdin=DEVNULL)\<close> does: it returns a completed process (exit status, captured
  standard output and standard error), or raises \<^verbatim>\<open>TimeoutExpired\<close> when the process
  has not exited within the timeout (carried: \<^verbatim>\<open>str(e)\<close>), or raises another exception
  when the process cannot be launched (carried: \<^verbatim>\<open>repr(e)\<close>).
\<close>

datatype proc_outcome =
    Completed int "bytes option" "bytes option"
  | TimeoutExpired pystr
  | Raised pystr

text \<open>A codec attempt \<^verbatim>\<open>buf.decode(enc)\<close>: \<open>None\<close> when it raises.\<close>

type_synonym codec = "bytes \<Rightarrow> pystr option"

text \<open>
  The environment of one run. The three flags are the module constants computed once at
  import time. \<open>subprocess_run\<close> gives the outcome of launching a command with a timeout.
  The codecs \<open>utf_8\<close>, \<open>gbk\<close>, \<open>cp936\<close> and the one chosen by
  \<^verbatim>\<open>locale.getpreferredencoding(False) or "utf-8"\<close> are the interpreter's; so are
  \<^verbatim>\<open>buf.decode("utf-8", errors="replace")\<close>, \<^verbatim>\<open>Path.suffix\<close> and \<^verbatim>\<open>str.lower\<close>.
\<close>

record env =
  HAS_FFPROBE :: bool
  HAS_FFMPEG :: bool
  HAS_EXIFTOOL :: bool
  subprocess_run :: "pystr list \<Rightarrow> int \<Rightarrow> proc_outcome"
  utf_8 :: codec
  preferred :: codec
  gbk :: codec
  cp936 :: codec
  utf_8_replace :: "bytes \<Rightarrow> exn + pystr"
  path_suffix :: "pystr \<Rightarrow> pystr"
  str_lower :: "pystr \<Rightarrow> pystr"

text \<open>Latin-1 maps every octet to the code point of the same number: it never fails.\<close>

definition latin_1 :: codec where
  "latin_1 buf = Some (map unat buf)"

section \<open>Process Runner\<close>

text \<open>
  The loop of \<^verbatim>\<open>_decode\<close>: the first codec of the list that does not raise gives the
  result.
\<close>

fun first_decoded :: "codec list \<Rightarrow> bytes \<Rightarrow> pystr option" where
  "first_decoded [] buf = None"
| "first_decoded (enc # encs) buf =
     (case enc buf of Some s \<Rightarrow> Some s | None \<Rightarrow> first_decoded encs buf)"

text \<open>
  \<^verbatim>\<open>_decode\<close> (local to \<^verbatim>\<open>run\<close>): the five codecs in the source's order, then the
  replacing decoder, which stands outside the loop's \<^verbatim>\<open>try\<close>: \<open>Inl\<close> is an exception
  leaving \<^verbatim>\<open>_decode\<close>.
\<close>

definition decode :: "env \<Rightarrow> bytes \<Rightarrow> exn + pystr" where
  "decode h buf =
     (case first_decoded [utf_8 h, preferred h, gbk h, cp936 h, latin_1] buf of
        Some s \<Rightarrow> Inr s
      | None \<Rightarrow> utf_8_replace h buf)"

text \<open>
  The calls of \<^verbatim>\<open>subprocess.run\<close> made so far, oldest first: the effect of the
  runner that the model keeps.
\<close>

type_synonym calls = "pystr list list"

text \<open>\<^verbatim>\<open>p.stdout or b""\<close>.\<close>

definition or_empty :: "bytes option \<Rightarrow> bytes" where
  "or_empty b = (case b of None \<Rightarrow> [] | Some x \<Rightarrow> x)"

definition run :: "env \<Rightarrow> pystr list \<Rightarrow> int \<Rightarrow> calls \<Rightarrow> (int \<times> pystr \<times> pystr) \<times> calls" where
  "run h cmd timeout cs =
     (case subprocess_run h cmd timeout of
        Completed returncode so se \<Rightarrow>
          (case decode h (or_empty so) of
             Inl e \<Rightarrow> (125, [], lit ''Exception: '' @ repr e)
           | Inr out \<Rightarrow>
               (case decode h (or_empty se) of
                  Inl e \<Rightarrow> (125, [], lit ''Exception: '' @ repr e)
                | Inr err \<Rightarrow> (returncode, out, err)))
      | TimeoutExpired msg \<Rightarrow> (124, [], lit ''Timeout: '' @ msg)
      | Raised r \<Rightarrow> (125, [], lit ''Exception: '' @ r),
      cs @ [cmd])"

section \<open>Tier Evaluators\<close>

text \<open>The rationale texts of the three tiers, as code points.\<close>

definition FAST_BASIS :: pystr where
  "FAST_BASIS = [102, 97, 115, 116, 65306, 20165, 36827, 34892, 23481, 22120, 47, 20803,
     25968, 25454, 25506, 27979, 65288, 102, 102, 112, 114, 111, 98, 101, 32, 43, 32, 101,
     120, 105, 102, 116, 111, 111, 108, 65289, 65292, 19981, 35299, 30721, 20687, 32032,
     65307, 36895, 24230, 24555, 65292, 21487, 33021, 28431, 26816, 28145, 23618, 25439,
     22351, 12290]"

definition MEDIUM_BASIS :: pystr where
  "MEDIUM_BASIS = [109, 101, 100, 105, 117, 109, 65306, 22312, 32, 102, 97, 115, 116, 32,
     22522, 30784, 19978, 65292, 39069, 22806, 29992, 32, 102, 102, 109, 112, 101, 103, 32,
     35299, 30721, 42, 42, 39318, 24103, 42, 42, 65288, 22270, 20687, 47, 35270, 39057,
     65289, 65292, 33021, 21457, 29616, 22823, 22810, 25968, 35299, 30721, 23618, 38169,
     35823, 12290]"

definition SLOW_BASIS :: pystr where
  "SLOW_BASIS = [115, 108, 111, 119, 65306, 23545, 35270, 39057, 25191, 34892, 42, 42,
     20840, 36712, 36947, 23436, 25972, 35299, 30721, 42, 42, 65288, 25152, 26377, 24103,
     47, 38899, 39057, 26679, 26412, 65289, 21040, 31354, 35774, 22791, 65292, 26368, 20005,
     26684, 20294, 26368, 24930, 65307, 22270, 20687, 31561, 25928, 20110, 32, 109, 101,
     100, 105, 117, 109, 65288, 21333, 24103, 21363, 23436, 25972, 65289, 12290]"

text \<open>The built-in extension sets of the source.\<close>

definition DEFAULT_IMAGE_EXTS :: "pystr set" where
  "DEFAULT_IMAGE_EXTS = {lit ''.jpg'', lit ''.jpeg'', lit ''.png'', lit ''.gif'', lit ''.bmp'',
     lit ''.tif'', lit ''.tiff'', lit ''.webp'', lit ''.heic'', lit ''.heif'', lit ''.dng'',
     lit ''.cr2'', lit ''.cr3'', lit ''.nef'', lit ''.arw'', lit ''.raf'', lit ''.rw2'',
     lit ''.orf''}"

definition DEFAULT_VIDEO_EXTS :: "pystr set" where
  "DEFAULT_VIDEO_EXTS = {lit ''.mp4'', lit ''.m4v'', lit ''.mov'', lit ''.avi'', lit ''.mkv'',
     lit ''.webm'', lit ''.wmv'', lit ''.flv'', lit ''.mts'', lit ''.m2ts'', lit ''.ts'',
     lit ''.3gp'', lit ''.3gpp'', lit ''.mxf'', lit ''.mpg'', lit ''.mpeg'', lit ''.vob''}"

text \<open>
  A path is modelled by its string \<^verbatim>\<open>str(path)\<close>; \<^verbatim>\<open>path.suffix.lower()\<close> is
  \<open>str_lower h (path_suffix h p)\<close>.
\<close>

definition is_image :: "env \<Rightarrow> pystr \<Rightarrow> pystr set \<Rightarrow> bool" where
  "is_image h p image_exts \<longleftrightarrow> str_lower h (path_suffix h p) \<in> image_exts"

definition is_video :: "env \<Rightarrow> pystr \<Rightarrow> pystr set \<Rightarrow> bool" where
  "is_video h p video_exts \<longleftrightarrow> str_lower h (path_suffix h p) \<in> video_exts"

text \<open>The four command lines of the source.\<close>

definition ffprobe_cmd :: "pystr \<Rightarrow> pystr list" where
  "ffprobe_cmd p = [lit ''ffprobe'', lit ''-v'', lit ''error'', lit ''-show_entries'',
     lit ''format=format_name:stream=codec_name,codec_type'', lit ''-of'', lit ''json'', p]"

definition exiftool_cmd :: "pystr \<Rightarrow> pystr list" where
  "exiftool_cmd p = [lit ''exiftool'', lit ''-fast'', lit ''-fast2'', lit ''-n'', lit ''-S'',
     lit ''-s'', lit ''-s'', lit ''-s'', p]"

definition first_frame_cmd :: "pystr \<Rightarrow> pystr list" where
  "first_frame_cmd p = [lit ''ffmpeg'', lit ''-v'', lit ''error'', lit ''-hide_banner'',
     lit ''-nostdin'', lit ''-i'', p, lit ''-frames:v'', lit ''1'', lit ''-an'', lit ''-f'',
     lit ''null'', lit ''-'']"

definition full_decode_cmd :: "pystr \<Rightarrow> pystr list" where
  "full_decode_cmd p = [lit ''ffmpeg'', lit ''-v'', lit ''error'', lit ''-hide_banner'',
     lit ''-nostdin'', lit ''-i'', p, lit ''-map'', lit ''0'', lit ''-f'', lit ''null'',
     lit ''-'']"

text \<open>
  \<^verbatim>\<open>check_fast\<close>: the two \<^verbatim>\<open>if\<close> blocks extend the lists \<^verbatim>\<open>diagnostics\<close> and
  \<^verbatim>\<open>ok_flags\<close> in turn; \<^verbatim>\<open>any(ok_flags) if ok_flags else False\<close> is the verdict.
\<close>

definition check_fast :: "env \<Rightarrow> pystr \<Rightarrow> int \<Rightarrow> calls \<Rightarrow> (bool \<times> pystr) \<times> calls" where
  "check_fast h p timeout cs0 =
     (let (diagnostics1, ok_flags1, cs1) =
            (if HAS_FFPROBE h then
               (case run h (ffprobe_cmd p) timeout cs0 of
                  ((rc, out, err), cs) \<Rightarrow>
                    let ffprobe_ok = (rc = 0 \<and> strip err = [])
                    in ([lit ''ffprobe rc='' @ str_int rc @ lit '' err_len='' @
                           str_nat (length (strip err))],
                        [ffprobe_ok], cs))
             else ([lit ''ffprobe unavailable''], [], cs0));
          (diagnostics2, ok_flags2, cs2) =
            (if HAS_EXIFTOOL h then
               (case run h (exiftool_cmd p) timeout cs1 of
                  ((rc2, out2, err2), cs) \<Rightarrow>
                    let exif_ok =
                          (rc2 = 0 \<and> (\<not> contains out2 (lit ''Error'') \<and> strip err2 = []))
                    in (diagnostics1 @
                          [lit ''exiftool rc='' @ str_int rc2 @ lit '' has_error_token='' @
                             str_bool (contains out2 (lit ''Error''))],
                        ok_flags1 @ [exif_ok], cs))
             else (diagnostics1 @ [lit ''exiftool unavailable''], ok_flags1, cs1));
          ok_any = (if ok_flags2 \<noteq> [] then list_ex id ok_flags2 else False);
          reason_text = join (lit ''; '') diagnostics2
      in ((ok_any, reason_text), cs2))"

definition check_decode_first_frame ::
  "env \<Rightarrow> pystr \<Rightarrow> int \<Rightarrow> calls \<Rightarrow> (bool \<times> pystr) \<times> calls" where
  "check_decode_first_frame h p timeout cs0 =
     (if \<not> HAS_FFMPEG h then ((False, lit ''ffmpeg unavailable''), cs0)
      else
        (case run h (first_frame_cmd p) timeout cs0 of
           ((rc, out, err), cs) \<Rightarrow>
             ((rc = 0 \<and> strip err = [],
               lit ''ffmpeg[first-frame] rc='' @ str_int rc @ lit '' err_len='' @
                 str_nat (length (strip err))),
              cs)))"

definition check_full_decode ::
  "env \<Rightarrow> pystr \<Rightarrow> int \<Rightarrow> calls \<Rightarrow> (bool \<times> pystr) \<times> calls" where
  "check_full_decode h p timeout cs0 =
     (if \<not> HAS_FFMPEG h then ((False, lit ''ffmpeg unavailable''), cs0)
      else
        (case run h (full_decode_cmd p) timeout cs0 of
           ((rc, out, err), cs) \<Rightarrow>
             ((rc = 0 \<and> strip err = [],
               lit ''ffmpeg[full-decode] rc='' @ str_int rc @ lit '' err_len='' @
                 str_nat (length (strip err))),
              cs)))"

section \<open>File Auditor\<close>

record FileResult =
  path :: pystr
  ok :: bool
  status :: pystr
  reason :: pystr
  mode :: pystr
  duration_ms :: int

text \<open>
  \<^verbatim>\<open>int((time.time() - t0) * 1000)\<close>, with the two clock readings as arguments:
  \<^verbatim>\<open>int\<close> truncates towards zero.
\<close>

definition elapsed_ms :: "real \<Rightarrow> real \<Rightarrow> int" where
  "elapsed_ms t0 t1 =
     (let d = (t1 - t0) * 1000 in if 0 \<le> d then \<lfloor>d\<rfloor> else \<lceil>d\<rceil>)"

text \<open>
  The evaluators that \<^verbatim>\<open>audit_one\<close> calls are taken as parameters, so that a fault
  inside one of them (\<open>Inl\<close>) can be expressed; the calls made before the fault stay made.
\<close>

type_synonym evaluator = "pystr \<Rightarrow> int \<Rightarrow> calls \<Rightarrow> (exn + bool \<times> pystr) \<times> calls"

record evaluators =
  eval_fast :: evaluator
  eval_first_frame :: evaluator
  eval_full_decode :: evaluator

text \<open>
  The body of the \<^verbatim>\<open>try\<close> block of \<^verbatim>\<open>audit_one\<close>. \<open>t0\<close> is the clock at entry,
  \<open>t1\<close> the clock when the result is built.
\<close>

definition audit_try ::
  "env \<Rightarrow> evaluators \<Rightarrow> pystr \<Rightarrow> pystr \<Rightarrow> int \<Rightarrow> pystr set \<Rightarrow> pystr set \<Rightarrow> real \<Rightarrow> real \<Rightarrow>
     calls \<Rightarrow> (exn + FileResult) \<times> calls" where
  "audit_try h evs p md timeout image_exts video_exts t0 t1 cs0 =
     (if \<not> (is_image h p image_exts \<or> is_video h p video_exts) then
        (Inr \<lparr>path = p, ok = True, status = lit ''skipped'',
              reason = lit ''unsupported extension'', mode = md,
              duration_ms = elapsed_ms t0 t1\<rparr>, cs0)
      else
        (case eval_fast evs p timeout cs0 of
           (Inl e, cs1) \<Rightarrow> (Inl e, cs1)
         | (Inr (ok_fast, why_fast), cs1) \<Rightarrow>
             if md = lit ''fast'' then
               (Inr \<lparr>path = p, ok = ok_fast,
                     status = (if ok_fast then lit ''ok'' else lit ''damaged''),
                     reason = FAST_BASIS @ lit '' | diag: '' @ why_fast, mode = md,
                     duration_ms = elapsed_ms t0 t1\<rparr>, cs1)
             else
               (case eval_first_frame evs p timeout cs1 of
                  (Inl e, cs2) \<Rightarrow> (Inl e, cs2)
                | (Inr (ok_first, why_first), cs2) \<Rightarrow>
                    if md = lit ''medium'' then
                      (let ok_both = (ok_fast \<and> ok_first) in
                         (Inr \<lparr>path = p, ok = ok_both,
                               status = (if ok_both then lit ''ok'' else lit ''damaged''),
                               reason = MEDIUM_BASIS @ lit '' | fast: '' @ why_fast @
                                 lit '' | first-frame: '' @ why_first,
                               mode = md, duration_ms = elapsed_ms t0 t1\<rparr>, cs2))
                    else
                      (case eval_full_decode evs p timeout cs2 of
                         (Inl e, cs3) \<Rightarrow> (Inl e, cs3)
                       | (Inr (ok_full, why_full), cs3) \<Rightarrow>
                           (Inr \<lparr>path = p, ok = ok_full,
                                 status = (if ok_full then lit ''ok'' else lit ''damaged''),
                                 reason = SLOW_BASIS @ lit '' | fast: '' @ why_fast @
                                   lit '' | first-frame: '' @ why_first @
                                   lit '' | full: '' @ why_full,
                                 mode = md, duration_ms = elapsed_ms t0 t1\<rparr>, cs3)))))"

text \<open>
  \<^verbatim>\<open>audit_one\<close> with its \<^verbatim>\<open>except Exception as e\<close> handler, over any evaluators.
\<close>

definition audit_one_with ::
  "env \<Rightarrow> evaluators \<Rightarrow> pystr \<Rightarrow> pystr \<Rightarrow> int \<Rightarrow> pystr set \<Rightarrow> pystr set \<Rightarrow> real \<Rightarrow> real \<Rightarrow>
     calls \<Rightarrow> FileResult \<times> calls" where
  "audit_one_with h evs p md timeout image_exts video_exts t0 t1 cs0 =
     (case audit_try h evs p md timeout image_exts video_exts t0 t1 cs0 of
        (Inr res, cs) \<Rightarrow> (res, cs)
      | (Inl e, cs) \<Rightarrow>
          (\<lparr>path = p, ok = False, status = lit ''error'',
            reason = lit ''Exception: '' @ repr e, mode = md,
            duration_ms = elapsed_ms t0 t1\<rparr>, cs))"

text \<open>The evaluators of the source: none of them raises.\<close>

definition returned :: "'a \<times> calls \<Rightarrow> (exn + 'a) \<times> calls" where
  "returned r = (Inr (fst r), snd r)"

definition source_evaluators :: "env \<Rightarrow> evaluators" where
  "source_evaluators h =
     \<lparr>eval_fast = (\<lambda>p timeout cs. returned (check_fast h p timeout cs)),
      eval_first_frame = (\<lambda>p timeout cs. returned (check_decode_first_frame h p timeout cs)),
      eval_full_decode = (\<lambda>p timeout cs. returned (check_full_decode h p timeout cs))\<rparr>"

definition audit_one ::
  "env \<Rightarrow> pystr \<Rightarrow> pystr \<Rightarrow> int \<Rightarrow> pystr set \<Rightarrow> pystr set \<Rightarrow> real \<Rightarrow> real \<Rightarrow> calls \<Rightarrow>
     FileResult \<times> calls" where
  "audit_one h = audit_one_with h (source_evaluators h)"

section \<open>Scheduler/Aggregator\<close>

record RunTally =
  checked :: int
  ok_count :: int
  bad_count :: int
  damaged_list :: "FileResult list"

text \<open>One pass of the body of the \<^verbatim>\<open>as_completed\<close> loop of \<^verbatim>\<open>main\<close>.\<close>

definition tally_step :: "RunTally \<Rightarrow> FileResult \<Rightarrow> RunTally" where
  "tally_step t res =
     (let t1 = t\<lparr>checked := checked t + 1\<rparr> in
        if status res = lit ''ok'' \<or> (ok res \<and> status res = lit ''skipped'') then
          t1\<lparr>ok_count := ok_count t1 + 1\<rparr>
        else if status res \<in> {lit ''damaged'', lit ''error''} then
          t1\<lparr>bad_count := bad_count t1 + 1, damaged_list := damaged_list t1 @ [res]\<rparr>
        else t1)"

definition tally0 :: RunTally where
  "tally0 = \<lparr>checked = 0, ok_count = 0, bad_count = 0, damaged_list = []\<rparr>"

text \<open>The loop over the results in their order of completion.\<close>

definition aggregate :: "FileResult list \<Rightarrow> RunTally" where
  "aggregate results = foldl tally_step tally0 results"

section \<open>Reading the runner's result\<close>

text \<open>
  What \<open>run\<close> returns for a command, apart from the record of calls: the triple
  \<open>(returncode, stdout, stderr)\<close>. \<open>timed_out\<close> says that
  \<^verbatim>\<open>subprocess.run\<close> raised \<^verbatim>\<open>TimeoutExpired\<close>.
\<close>

definition outcome :: "env \<Rightarrow> pystr list \<Rightarrow> int \<Rightarrow> int \<times> pystr \<times> pystr" where
  "outcome h cmd timeout = fst (run h cmd timeout [])"

definition returncode_of :: "int \<times> pystr \<times> pystr \<Rightarrow> int" where
  "returncode_of r = fst r"

definition stdout_of :: "int \<times> pystr \<times> pystr \<Rightarrow> pystr" where
  "stdout_of r = fst (snd r)"

definition stderr_of :: "int \<times> pystr \<times> pystr \<Rightarrow> pystr" where
  "stderr_of r = snd (snd r)"

definition timed_out :: "env \<Rightarrow> pystr list \<Rightarrow> int \<Rightarrow> bool" where
  "timed_out h cmd timeout =
     (case subprocess_run h cmd timeout of TimeoutExpired msg \<Rightarrow> True | _ \<Rightarrow> False)"

text \<open>Every available probing tool timed out.\<close>

definition probes_timed_out :: "env \<Rightarrow> pystr \<Rightarrow> int \<Rightarrow> bool" where
  "probes_timed_out h p timeout \<longleftrightarrow>
     (HAS_FFPROBE h \<longrightarrow> timed_out h (ffprobe_cmd p) timeout) \<and>
     (HAS_EXIFTOOL h \<longrightarrow> timed_out h (exiftool_cmd p) timeout)"

text \<open>The calls that \<open>check_fast\<close> makes, and whether a file's extension is supported.\<close>

definition probe_calls :: "env \<Rightarrow> pystr \<Rightarrow> calls" where
  "probe_calls h p =
     (if HAS_FFPROBE h then [ffprobe_cmd p] else []) @
     (if HAS_EXIFTOOL h then [exiftool_cmd p] else [])"

definition ffmpeg_calls :: "env \<Rightarrow> pystr list \<Rightarrow> calls" where
  "ffmpeg_calls h cmd = (if HAS_FFMPEG h then [cmd] else [])"

definition supported :: "env \<Rightarrow> pystr \<Rightarrow> pystr set \<Rightarrow> pystr set \<Rightarrow> bool" where
  "supported h p image_exts video_exts \<longleftrightarrow> is_image h p image_exts \<or> is_video h p video_exts"

text \<open>The diagnostic texts of the evaluators, tool by tool.\<close>

definition ffprobe_diag :: "env \<Rightarrow> pystr \<Rightarrow> int \<Rightarrow> pystr" where
  "ffprobe_diag h p timeout =
     (if HAS_FFPROBE h then
        lit ''ffprobe rc='' @ str_int (returncode_of (outcome h (ffprobe_cmd p) timeout)) @
        lit '' err_len='' @
        str_nat (length (strip (stderr_of (outcome h (ffprobe_cmd p) timeout))))
      else lit ''ffprobe unavailable'')"

definition exiftool_diag :: "env \<Rightarrow> pystr \<Rightarrow> int \<Rightarrow> pystr" where
  "exiftool_diag h p timeout =
     (if HAS_EXIFTOOL h then
        lit ''exiftool rc='' @ str_int (returncode_of (outcome h (exiftool_cmd p) timeout)) @
        lit '' has_error_token='' @
        str_bool (contains (stdout_of (outcome h (exiftool_cmd p) timeout)) (lit ''Error''))
      else lit ''exiftool unavailable'')"

definition ffmpeg_diag :: "env \<Rightarrow> string \<Rightarrow> pystr list \<Rightarrow> int \<Rightarrow> pystr" where
  "ffmpeg_diag h label cmd timeout =
     (if HAS_FFMPEG h then
        lit ''ffmpeg['' @ lit label @ lit ''] rc='' @
        str_int (returncode_of (outcome h cmd timeout)) @ lit '' err_len='' @
        str_nat (length (strip (stderr_of (outcome h cmd timeout))))
      else lit ''ffmpeg unavailable'')"

text \<open>The two components of an evaluator's answer.\<close>

definition passed :: "(bool \<times> pystr) \<times> calls \<Rightarrow> bool" where
  "passed r = fst (fst r)"

definition diagnostic :: "(bool \<times> pystr) \<times> calls \<Rightarrow> pystr" where
  "diagnostic r = snd (fst r)"

text \<open>
  How the loop classifies a result, and the results that the loop of \<^verbatim>\<open>main\<close>
  receives: one per submitted task, in the order of completion. A task is a path with
  the two clock readings of its audit; each audit starts its own record of calls.
\<close>

definition counts_ok :: "FileResult \<Rightarrow> bool" where
  "counts_ok res \<longleftrightarrow> status res = lit ''ok'' \<or> (ok res \<and> status res = lit ''skipped'')"

definition counts_bad :: "FileResult \<Rightarrow> bool" where
  "counts_bad res \<longleftrightarrow> status res = lit ''damaged'' \<or> status res = lit ''error''"

definition verdicts ::
  "env \<Rightarrow> evaluators \<Rightarrow> pystr \<Rightarrow> int \<Rightarrow> pystr set \<Rightarrow> pystr set \<Rightarrow>
     (pystr \<times> real \<times> real) list \<Rightarrow> FileResult list" where
  "verdicts h evs md timeout image_exts video_exts completed =
     map (\<lambda>(p, t0, t1). fst (audit_one_with h evs p md timeout image_exts video_exts t0 t1 []))
       completed"

section \<open>The specification's wording, for comparison\<close>

text \<open>
  Only for comparison with \<open>decode\<close>: the chain as the specification lists it (UTF-8, the
  host's preferred encoding, the two East-Asian codecs, then the replacing decoder),
  without the Latin-1 step of the source.
\<close>

definition decode_as_specified :: "env \<Rightarrow> bytes \<Rightarrow> exn + pystr" where
  "decode_as_specified h buf =
     (case first_decoded [utf_8 h, preferred h, gbk h, cp936 h] buf of
        Some s \<Rightarrow> Inr s
      | None \<Rightarrow> utf_8_replace h buf)"

text \<open>
  Only for comparison with \<open>check_fast\<close>: the Fast verdict as the specification words it,
  with a tool clean when its exit status is zero and its error stream is empty.
\<close>

definition fast_pass_as_specified :: "env \<Rightarrow> pystr \<Rightarrow> int \<Rightarrow> bool" where
  "fast_pass_as_specified h p timeout \<longleftrightarrow>
     (HAS_FFPROBE h \<and> returncode_of (outcome h (ffprobe_cmd p) timeout) = 0 \<and>
        stderr_of (outcome h (ffprobe_cmd p) timeout) = []) \<or>
     (HAS_EXIFTOOL h \<and> returncode_of (outcome h (exiftool_cmd p) timeout) = 0 \<and>
        stderr_of (outcome h (exiftool_cmd p) timeout) = [] \<and>
        \<not> contains (stdout_of (outcome h (exiftool_cmd p) timeout)) (lit ''Error''))"

section \<open>A concrete host for examples\<close>

text \<open>
  The example host decodes ASCII as every codec of the chain does, and rejects any octet
  from 128 on in its strict codecs, as UTF-8 and GBK reject a lone octet 255; its
  replacing decoder puts U+FFFD for such an octet. A suffix starts at the last dot of a
  plain file name; \<open>ascii_lower\<close> lowers the letters A to Z.
\<close>

definition ascii_codec :: codec where
  "ascii_codec buf = (if list_all (\<lambda>b. b < 128) buf then Some (map unat buf) else None)"

definition replacing_codec :: "bytes \<Rightarrow> exn + pystr" where
  "replacing_codec buf = Inr (map (\<lambda>b. if b < 128 then unat b else 65533) buf)"

definition name_suffix :: "pystr \<Rightarrow> pystr" where
  "name_suffix p =
     (let r = takeWhile (\<lambda>c. c \<noteq> 46) (rev p)
      in if length r = length p then [] else 46 # rev r)"

definition ascii_lower :: "pystr \<Rightarrow> pystr" where
  "ascii_lower s = map (\<lambda>c. if 65 \<le> c \<and> c \<le> 90 then c + 32 else c) s"

definition example_host ::
  "bool \<Rightarrow> bool \<Rightarrow> bool \<Rightarrow> (pystr list \<Rightarrow> int \<Rightarrow> proc_outcome) \<Rightarrow> env" where
  "example_host has_ffprobe has_ffmpeg has_exiftool procs =
     \<lparr>HAS_FFPROBE = has_ffprobe, HAS_FFMPEG = has_ffmpeg, HAS_EXIFTOOL = has_exiftool,
      subprocess_run = procs, utf_8 = ascii_codec, preferred = ascii_codec,
      gbk = ascii_codec, cp936 = ascii_codec, utf_8_replace = replacing_codec,
      path_suffix = name_suffix, str_lower = ascii_lower\<rparr>"

text \<open>A process table in which every launch fails.\<close>

definition no_procs :: "pystr list \<Rightarrow> int \<Rightarrow> proc_outcome" where
  "no_procs cmd timeout = Raised (lit ''FileNotFoundError()'')"

text \<open>
  A process table given as a list of commands with their outcomes; any other command
  cannot be launched. \<open>ascii\<close> writes a byte string.
\<close>

definition procs_of :: "(pystr list \<times> proc_outcome) list \<Rightarrow> pystr list \<Rightarrow> int \<Rightarrow> proc_outcome" where
  "procs_of table cmd timeout =
     (case map_of table cmd of Some r \<Rightarrow> r | None \<Rightarrow> Raised (lit ''FileNotFoundError()''))"

definition ascii :: "string \<Rightarrow> bytes" where
  "ascii s = map (\<lambda>c. word_of_nat (of_char c)) s"

text \<open>
  A video whose probe fails (exit status 1 with error text), whose metadata read prints an
  \<^verbatim>\<open>Error\<close> token, whose first-frame decode times out and whose full decode is clean.
\<close>

definition clip :: pystr where
  "clip = lit ''clip.mp4''"

definition late_bloomer :: env where
  "late_bloomer = example_host True True True (procs_of
     [(ffprobe_cmd clip, Completed 1 (Some []) (Some (ascii ''moov atom not found''))),
      (exiftool_cmd clip, Completed 0 (Some (ascii ''Error: truncated'')) (Some [])),
      (first_frame_cmd clip, TimeoutExpired (lit ''timed out after 120 seconds'')),
      (full_decode_cmd clip, Completed 0 (Some []) (Some []))])"

text \<open>A video on which all four tool runs are clean.\<close>

definition healthy :: env where
  "healthy = example_host True True True (procs_of
     [(ffprobe_cmd clip, Completed 0 (Some (ascii ''{}'')) (Some [])),
      (exiftool_cmd clip, Completed 0 (Some (ascii ''mp4'')) (Some [])),
      (first_frame_cmd clip, Completed 0 (Some []) (Some [])),
      (full_decode_cmd clip, Completed 0 (Some []) (Some []))])"

text \<open>
  Further hosts: a probe that exits with status 0 and a lone newline on its error stream;
  a metadata tool alone, clean but for a warning on its error stream; a probe that times
  out beside a clean metadata tool; no tool at all; every launch timing out.
\<close>

definition newline_host :: env where
  "newline_host = example_host True False False (procs_of
     [(ffprobe_cmd clip, Completed 0 (Some (ascii ''{}'')) (Some [10]))])"

definition metadata_only :: env where
  "metadata_only = example_host False False True (procs_of
     [(exiftool_cmd clip, Completed 0 (Some (ascii ''mp4'')) (Some (ascii ''warning'')))])"

definition slow_probe :: env where
  "slow_probe = example_host True False True (procs_of
     [(ffprobe_cmd clip, TimeoutExpired (lit ''timed out after 120 seconds'')),
      (exiftool_cmd clip, Completed 0 (Some (ascii ''mp4'')) (Some []))])"

definition toolless :: env where
  "toolless = example_host False False False no_procs"

definition all_timeouts :: env where
  "all_timeouts = example_host True True True
     (\<lambda>cmd timeout. TimeoutExpired (lit ''timed out after 120 seconds''))"

text \<open>
  A file with an unsupported extension, and evaluators whose first-frame decode fails with
  an unexpected exception.
\<close>

definition note_txt :: pystr where
  "note_txt = lit ''note.txt''"

definition faulty :: "env \<Rightarrow> evaluators" where
  "faulty h = (source_evaluators h)
     \<lparr>eval_first_frame := (\<lambda>p timeout cs. (Inl (PyException (lit ''MemoryError()'')), cs))\<rparr>"

section \<open>Helper lemmas\<close>

declare str_nat.simps [simp del]

lemma lit_eq_iff: "lit a = lit b \<longleftrightarrow> a = b"
  unfolding lit_def by (simp add: inj_def)

lemmas cmd_defs = ffprobe_cmd_def exiftool_cmd_def first_frame_cmd_def full_decode_cmd_def

lemma run_eq: "run h cmd timeout cs = (outcome h cmd timeout, cs @ [cmd])"
  by (simp add: outcome_def run_def)

lemma check_fast_calls: "snd (check_fast h p timeout cs) = cs @ probe_calls h p"
  by (simp add: check_fast_def probe_calls_def run_eq split: prod.splits)

lemma check_first_calls:
  "snd (check_decode_first_frame h p timeout cs) = cs @ ffmpeg_calls h (first_frame_cmd p)"
  by (simp add: check_decode_first_frame_def ffmpeg_calls_def run_eq split: prod.splits)

lemma check_full_calls:
  "snd (check_full_decode h p timeout cs) = cs @ ffmpeg_calls h (full_decode_cmd p)"
  by (simp add: check_full_decode_def ffmpeg_calls_def run_eq split: prod.splits)

lemma check_fast_ok:
  "passed (check_fast h p timeout cs) \<longleftrightarrow>
     (HAS_FFPROBE h \<and> returncode_of (outcome h (ffprobe_cmd p) timeout) = 0 \<and>
        strip (stderr_of (outcome h (ffprobe_cmd p) timeout)) = []) \<or>
     (HAS_EXIFTOOL h \<and> returncode_of (outcome h (exiftool_cmd p) timeout) = 0 \<and>
        strip (stderr_of (outcome h (exiftool_cmd p) timeout)) = [] \<and>
        \<not> contains (stdout_of (outcome h (exiftool_cmd p) timeout)) (lit ''Error''))"
  by (auto simp add: passed_def check_fast_def run_eq returncode_of_def stderr_of_def stdout_of_def
      split: prod.splits)

lemma check_first_ok:
  "passed (check_decode_first_frame h p timeout cs) \<longleftrightarrow>
     HAS_FFMPEG h \<and> returncode_of (outcome h (first_frame_cmd p) timeout) = 0 \<and>
        strip (stderr_of (outcome h (first_frame_cmd p) timeout)) = []"
  by (auto simp add: passed_def check_decode_first_frame_def run_eq returncode_of_def stderr_of_def
      split: prod.splits)

lemma check_full_ok:
  "passed (check_full_decode h p timeout cs) \<longleftrightarrow>
     HAS_FFMPEG h \<and> returncode_of (outcome h (full_decode_cmd p) timeout) = 0 \<and>
        strip (stderr_of (outcome h (full_decode_cmd p) timeout)) = []"
  by (auto simp add: passed_def check_full_decode_def run_eq returncode_of_def stderr_of_def
      split: prod.splits)

lemma audit_one_unsupported:
  "\<not> supported h p ie ve \<Longrightarrow>
   audit_one_with h evs p md timeout ie ve t0 t1 cs =
     (\<lparr>path = p, ok = True, status = lit ''skipped'', reason = lit ''unsupported extension'',
       mode = md, duration_ms = elapsed_ms t0 t1\<rparr>, cs)"
  by (simp add: audit_one_with_def audit_try_def supported_def)

lemma audit_try_source:
  "supported h p ie ve \<Longrightarrow>
   audit_try h (source_evaluators h) p md timeout ie ve t0 t1 cs =
    (let f = check_fast h p timeout cs;
         g = check_decode_first_frame h p timeout (snd f);
         u = check_full_decode h p timeout (snd g)
     in if md = lit ''fast'' then
          (Inr \<lparr>path = p, ok = passed f,
                status = (if passed f then lit ''ok'' else lit ''damaged''),
                reason = FAST_BASIS @ lit '' | diag: '' @ diagnostic f, mode = md,
                duration_ms = elapsed_ms t0 t1\<rparr>, snd f)
        else if md = lit ''medium'' then
          (Inr \<lparr>path = p, ok = (passed f \<and> passed g),
                status = (if passed f \<and> passed g then lit ''ok'' else lit ''damaged''),
                reason = MEDIUM_BASIS @ lit '' | fast: '' @ diagnostic f @
                  lit '' | first-frame: '' @ diagnostic g,
                mode = md, duration_ms = elapsed_ms t0 t1\<rparr>, snd g)
        else
          (Inr \<lparr>path = p, ok = passed u,
                status = (if passed u then lit ''ok'' else lit ''damaged''),
                reason = SLOW_BASIS @ lit '' | fast: '' @ diagnostic f @
                  lit '' | first-frame: '' @ diagnostic g @ lit '' | full: '' @ diagnostic u,
                mode = md, duration_ms = elapsed_ms t0 t1\<rparr>, snd u))"
  by (simp add: audit_try_def supported_def source_evaluators_def returned_def Let_def
      passed_def diagnostic_def
      split: prod.splits)

lemma check_fast_diag:
  "diagnostic (check_fast h p timeout cs) =
     ffprobe_diag h p timeout @ lit ''; '' @ exiftool_diag h p timeout"
  by (simp add: diagnostic_def check_fast_def run_eq ffprobe_diag_def exiftool_diag_def
      returncode_of_def stderr_of_def stdout_of_def split: prod.splits)

lemma check_first_diag:
  "diagnostic (check_decode_first_frame h p timeout cs) =
     ffmpeg_diag h ''first-frame'' (first_frame_cmd p) timeout"
  by (simp add: diagnostic_def check_decode_first_frame_def run_eq ffmpeg_diag_def
      returncode_of_def stderr_of_def lit_def split: prod.splits)

lemma check_full_diag:
  "diagnostic (check_full_decode h p timeout cs) =
     ffmpeg_diag h ''full-decode'' (full_decode_cmd p) timeout"
  by (simp add: diagnostic_def check_full_decode_def run_eq ffmpeg_diag_def
      returncode_of_def stderr_of_def lit_def split: prod.splits)

lemma audit_one_eq:
  "audit_one h p md timeout ie ve t0 t1 cs =
    (if \<not> supported h p ie ve then
       (\<lparr>path = p, ok = True, status = lit ''skipped'', reason = lit ''unsupported extension'',
         mode = md, duration_ms = elapsed_ms t0 t1\<rparr>, cs)
     else
       let f = check_fast h p timeout cs;
           g = check_decode_first_frame h p timeout (snd f);
           u = check_full_decode h p timeout (snd g)
       in if md = lit ''fast'' then
            (\<lparr>path = p, ok = passed f,
              status = (if passed f then lit ''ok'' else lit ''damaged''),
              reason = FAST_BASIS @ lit '' | diag: '' @ diagnostic f, mode = md,
              duration_ms = elapsed_ms t0 t1\<rparr>, snd f)
          else if md = lit ''medium'' then
            (\<lparr>path = p, ok = (passed f \<and> passed g),
              status = (if passed f \<and> passed g then lit ''ok'' else lit ''damaged''),
              reason = MEDIUM_BASIS @ lit '' | fast: '' @ diagnostic f @
                lit '' | first-frame: '' @ diagnostic g,
              mode = md, duration_ms = elapsed_ms t0 t1\<rparr>, snd g)
          else
            (\<lparr>path = p, ok = passed u,
              status = (if passed u then lit ''ok'' else lit ''damaged''),
              reason = SLOW_BASIS @ lit '' | fast: '' @ diagnostic f @
                lit '' | first-frame: '' @ diagnostic g @ lit '' | full: '' @ diagnostic u,
              mode = md, duration_ms = elapsed_ms t0 t1\<rparr>, snd u))"
proof (cases "supported h p ie ve")
  case True
  then show ?thesis
    by (simp add: audit_one_def audit_one_with_def audit_try_source Let_def)
next
  case False
  then show ?thesis
    by (simp add: audit_one_def audit_one_unsupported)
qed

lemma audit_one_slow:
  "supported h p ie ve \<Longrightarrow>
   audit_one h p (lit ''slow'') timeout ie ve t0 t1 cs =
     (\<lparr>path = p, ok = passed (check_full_decode h p timeout []),
       status = (if passed (check_full_decode h p timeout []) then lit ''ok'' else lit ''damaged''),
       reason = SLOW_BASIS @ lit '' | fast: '' @ diagnostic (check_fast h p timeout []) @
         lit '' | first-frame: '' @ diagnostic (check_decode_first_frame h p timeout []) @
         lit '' | full: '' @ diagnostic (check_full_decode h p timeout []),
       mode = lit ''slow'', duration_ms = elapsed_ms t0 t1\<rparr>,
      cs @ probe_calls h p @ ffmpeg_calls h (first_frame_cmd p) @
        ffmpeg_calls h (full_decode_cmd p))"
  by (simp add: audit_one_eq Let_def lit_eq_iff check_fast_calls check_first_calls
      check_full_calls check_fast_ok check_first_ok check_full_ok check_fast_diag
      check_first_diag check_full_diag)

lemma audit_one_medium:
  "supported h p ie ve \<Longrightarrow>
   audit_one h p (lit ''medium'') timeout ie ve t0 t1 cs =
     (\<lparr>path = p,
       ok = (passed (check_fast h p timeout []) \<and> passed (check_decode_first_frame h p timeout [])),
       status = (if passed (check_fast h p timeout []) \<and>
                    passed (check_decode_first_frame h p timeout [])
                 then lit ''ok'' else lit ''damaged''),
       reason = MEDIUM_BASIS @ lit '' | fast: '' @ diagnostic (check_fast h p timeout []) @
         lit '' | first-frame: '' @ diagnostic (check_decode_first_frame h p timeout []),
       mode = lit ''medium'', duration_ms = elapsed_ms t0 t1\<rparr>,
      cs @ probe_calls h p @ ffmpeg_calls h (first_frame_cmd p))"
  by (simp add: audit_one_eq Let_def lit_eq_iff check_fast_calls check_first_calls
      check_fast_ok check_first_ok check_fast_diag check_first_diag)

lemma audit_one_fast:
  "supported h p ie ve \<Longrightarrow>
   audit_one h p (lit ''fast'') timeout ie ve t0 t1 cs =
     (\<lparr>path = p, ok = passed (check_fast h p timeout []),
       status = (if passed (check_fast h p timeout []) then lit ''ok'' else lit ''damaged''),
       reason = FAST_BASIS @ lit '' | diag: '' @ diagnostic (check_fast h p timeout []),
       mode = lit ''fast'', duration_ms = elapsed_ms t0 t1\<rparr>,
      cs @ probe_calls h p)"
  by (simp add: audit_one_eq Let_def check_fast_calls check_fast_ok check_fast_diag)

lemmas example_defs = outcome_def run_def example_host_def procs_of_def cmd_defs
  decode_def ascii_codec_def or_empty_def ascii_def lit_def

lemmas text_defs = returncode_of_def stderr_of_def stdout_of_def strip_def contains_def
  isspace_def lit_def sublist_Cons_right

lemma clip_supported:
  "supported late_bloomer clip DEFAULT_IMAGE_EXTS DEFAULT_VIDEO_EXTS"
  "supported healthy clip DEFAULT_IMAGE_EXTS DEFAULT_VIDEO_EXTS"
  by (simp_all add: supported_def is_image_def is_video_def late_bloomer_def healthy_def
      example_host_def clip_def name_suffix_def ascii_lower_def DEFAULT_IMAGE_EXTS_def
      DEFAULT_VIDEO_EXTS_def lit_def)

lemma late_bloomer_flags:
  "HAS_FFPROBE late_bloomer" "HAS_EXIFTOOL late_bloomer" "HAS_FFMPEG late_bloomer"
  by (simp_all add: late_bloomer_def example_host_def)

lemma late_bloomer_outcomes:
  "outcome late_bloomer (ffprobe_cmd clip) t = (1, [], lit ''moov atom not found'')"
  "outcome late_bloomer (exiftool_cmd clip) t = (0, lit ''Error: truncated'', [])"
  "outcome late_bloomer (first_frame_cmd clip) t =
     (124, [], lit ''Timeout: timed out after 120 seconds'')"
  "outcome late_bloomer (full_decode_cmd clip) t = (0, [], [])"
  by (simp_all add: late_bloomer_def example_defs)

lemma late_bloomer_checks:
  "\<not> passed (check_fast late_bloomer clip t cs)"
  "\<not> passed (check_decode_first_frame late_bloomer clip t cs)"
  "passed (check_full_decode late_bloomer clip t cs)"
  by (simp_all add: check_fast_ok check_first_ok check_full_ok late_bloomer_flags
      late_bloomer_outcomes text_defs)

lemma healthy_flags:
  "HAS_FFPROBE healthy" "HAS_EXIFTOOL healthy" "HAS_FFMPEG healthy"
  by (simp_all add: healthy_def example_host_def)

lemma healthy_outcomes:
  "outcome healthy (ffprobe_cmd clip) t = (0, lit ''{}'', [])"
  "outcome healthy (exiftool_cmd clip) t = (0, lit ''mp4'', [])"
  "outcome healthy (first_frame_cmd clip) t = (0, [], [])"
  "outcome healthy (full_decode_cmd clip) t = (0, [], [])"
  by (simp_all add: healthy_def example_defs)

lemma healthy_checks:
  "passed (check_fast healthy clip t cs)"
  "passed (check_decode_first_frame healthy clip t cs)"
  "passed (check_full_decode healthy clip t cs)"
  by (simp_all add: check_fast_ok check_first_ok check_full_ok healthy_flags
      healthy_outcomes text_defs)

lemma other_supported:
  "supported newline_host clip DEFAULT_IMAGE_EXTS DEFAULT_VIDEO_EXTS"
  "supported metadata_only clip DEFAULT_IMAGE_EXTS DEFAULT_VIDEO_EXTS"
  "supported slow_probe clip DEFAULT_IMAGE_EXTS DEFAULT_VIDEO_EXTS"
  "supported toolless clip DEFAULT_IMAGE_EXTS DEFAULT_VIDEO_EXTS"
  "supported all_timeouts clip DEFAULT_IMAGE_EXTS DEFAULT_VIDEO_EXTS"
  by (simp_all add: supported_def is_image_def is_video_def newline_host_def metadata_only_def
      slow_probe_def toolless_def all_timeouts_def
      example_host_def clip_def name_suffix_def ascii_lower_def DEFAULT_IMAGE_EXTS_def
      DEFAULT_VIDEO_EXTS_def lit_def)

lemma newline_host_facts:
  "HAS_FFPROBE newline_host" "\<not> HAS_EXIFTOOL newline_host" "\<not> HAS_FFMPEG newline_host"
  "outcome newline_host (ffprobe_cmd clip) t = (0, lit ''{}'', [10])"
  by (simp_all add: newline_host_def example_defs)

lemma newline_host_checks:
  "passed (check_fast newline_host clip t cs)"
  "\<not> fast_pass_as_specified newline_host clip t"
  "stderr_of (outcome newline_host (ffprobe_cmd clip) t) = [10]"
  by (simp_all add: check_fast_ok fast_pass_as_specified_def newline_host_facts text_defs)

lemma toolless_facts:
  "\<not> HAS_FFPROBE toolless" "\<not> HAS_EXIFTOOL toolless" "\<not> HAS_FFMPEG toolless"
  by (simp_all add: toolless_def example_host_def)

lemma metadata_only_facts:
  "\<not> HAS_FFPROBE metadata_only" "HAS_EXIFTOOL metadata_only" "\<not> HAS_FFMPEG metadata_only"
  "outcome metadata_only (exiftool_cmd clip) t = (0, lit ''mp4'', lit ''warning'')"
  by (simp_all add: metadata_only_def example_defs)

lemma metadata_only_diag:
  "diagnostic (check_fast metadata_only clip t cs) =
     lit ''ffprobe unavailable; exiftool rc=0 has_error_token=False''"
  by (simp add: check_fast_diag ffprobe_diag_def exiftool_diag_def metadata_only_facts
      str_int_def str_nat.simps str_bool_def text_defs)

lemma contains_left: "contains (a @ b) a"
  by (simp add: contains_def)

lemma contains_right: "contains (a @ b @ c) c"
  using sublist_append_leftI [of c "a @ b"] by (simp add: contains_def)

lemma timed_out_outcome:
  "timed_out h cmd timeout \<Longrightarrow> returncode_of (outcome h cmd timeout) = 124"
  by (auto simp add: timed_out_def outcome_def run_def returncode_of_def
      split: proc_outcome.splits)

lemma timed_out_checks:
  "probes_timed_out h p timeout \<Longrightarrow> \<not> passed (check_fast h p timeout cs)"
  "timed_out h (first_frame_cmd p) timeout \<Longrightarrow>
     \<not> passed (check_decode_first_frame h p timeout cs)"
  "timed_out h (full_decode_cmd p) timeout \<Longrightarrow> \<not> passed (check_full_decode h p timeout cs)"
  by (auto simp add: probes_timed_out_def check_fast_ok check_first_ok check_full_ok
      dest: timed_out_outcome)

lemma slow_probe_facts:
  "HAS_FFPROBE slow_probe" "HAS_EXIFTOOL slow_probe" "\<not> HAS_FFMPEG slow_probe"
  "timed_out slow_probe (ffprobe_cmd clip) t"
  "outcome slow_probe (ffprobe_cmd clip) t = (124, [], lit ''Timeout: timed out after 120 seconds'')"
  "outcome slow_probe (exiftool_cmd clip) t = (0, lit ''mp4'', [])"
  by (simp_all add: slow_probe_def timed_out_def example_defs)

lemma slow_probe_checks: "passed (check_fast slow_probe clip t cs)"
  by (simp add: check_fast_ok slow_probe_facts text_defs)

lemma all_timeouts_facts:
  "HAS_FFPROBE all_timeouts" "HAS_EXIFTOOL all_timeouts" "HAS_FFMPEG all_timeouts"
  "subprocess_run all_timeouts cmd t = TimeoutExpired (lit ''timed out after 120 seconds'')"
  "timed_out all_timeouts cmd t"
  "probes_timed_out all_timeouts p t"
  by (simp_all add: all_timeouts_def timed_out_def probes_timed_out_def example_host_def)

lemma toolless_run:
  "subprocess_run toolless cmd t = Raised (lit ''FileNotFoundError()'')"
  by (simp add: toolless_def example_host_def no_procs_def)

lemma note_unsupported: "\<not> supported healthy note_txt DEFAULT_IMAGE_EXTS DEFAULT_VIDEO_EXTS"
  by (simp add: supported_def is_image_def is_video_def healthy_def
      example_host_def note_txt_def name_suffix_def ascii_lower_def DEFAULT_IMAGE_EXTS_def
      DEFAULT_VIDEO_EXTS_def lit_def)

lemma status_cases:
  "status (fst (audit_one_with h evs p md timeout ie ve t0 t1 cs)) = lit ''skipped'' \<and>
     ok (fst (audit_one_with h evs p md timeout ie ve t0 t1 cs)) \<and> \<not> supported h p ie ve
   \<or> status (fst (audit_one_with h evs p md timeout ie ve t0 t1 cs)) = lit ''ok'' \<and>
     ok (fst (audit_one_with h evs p md timeout ie ve t0 t1 cs)) \<and> supported h p ie ve
   \<or> status (fst (audit_one_with h evs p md timeout ie ve t0 t1 cs)) = lit ''damaged'' \<and>
     \<not> ok (fst (audit_one_with h evs p md timeout ie ve t0 t1 cs)) \<and> supported h p ie ve
   \<or> status (fst (audit_one_with h evs p md timeout ie ve t0 t1 cs)) = lit ''error'' \<and>
     \<not> ok (fst (audit_one_with h evs p md timeout ie ve t0 t1 cs)) \<and> supported h p ie ve"
  by (simp add: audit_one_with_def audit_try_def supported_def Let_def
      split: prod.splits sum.splits)

lemma mode_kept: "mode (fst (audit_one_with h evs p md timeout ie ve t0 t1 cs)) = md"
  by (simp add: audit_one_with_def audit_try_def supported_def Let_def
      split: prod.splits sum.splits)

lemma note_unsupported2: "\<not> supported late_bloomer note_txt DEFAULT_IMAGE_EXTS DEFAULT_VIDEO_EXTS"
  by (simp add: supported_def is_image_def is_video_def late_bloomer_def
      example_host_def note_txt_def name_suffix_def ascii_lower_def DEFAULT_IMAGE_EXTS_def
      DEFAULT_VIDEO_EXTS_def lit_def)

lemma faulty_try:
  "fst (audit_try healthy (faulty healthy) clip (lit ''medium'') t DEFAULT_IMAGE_EXTS
     DEFAULT_VIDEO_EXTS t0 t1 cs) = Inl (PyException (lit ''MemoryError()''))"
  using clip_supported(2)
  by (simp add: audit_try_def supported_def faulty_def source_evaluators_def returned_def
      lit_eq_iff split: prod.splits)

lemma audit_one_with_caught:
  "fst (audit_try h evs p md timeout ie ve t0 t1 cs) = Inl e \<Longrightarrow>
   fst (audit_one_with h evs p md timeout ie ve t0 t1 cs) =
     \<lparr>path = p, ok = False, status = lit ''error'', reason = lit ''Exception: '' @ repr e,
      mode = md, duration_ms = elapsed_ms t0 t1\<rparr>"
  by (auto simp add: audit_one_with_def split: prod.splits sum.splits)

lemma tally_step_fields:
  "checked (tally_step t res) = checked t + 1"
  "ok_count (tally_step t res) = ok_count t + (if counts_ok res then 1 else 0)"
  "bad_count (tally_step t res) = bad_count t + (if counts_bad res then 1 else 0)"
  "damaged_list (tally_step t res) = damaged_list t @ (if counts_bad res then [res] else [])"
  by (auto simp add: tally_step_def counts_ok_def counts_bad_def Let_def lit_eq_iff)

lemma foldl_tally_step:
  "checked (foldl tally_step t rs) = checked t + int (length rs) \<and>
   ok_count (foldl tally_step t rs) = ok_count t + int (length (filter counts_ok rs)) \<and>
   bad_count (foldl tally_step t rs) = bad_count t + int (length (filter counts_bad rs)) \<and>
   damaged_list (foldl tally_step t rs) = damaged_list t @ filter counts_bad rs"
  by (induction rs arbitrary: t) (simp_all add: tally_step_fields)

lemma verdict_classified:
  "counts_bad (fst (audit_one_with h evs p md timeout ie ve t0 t1 cs)) \<longleftrightarrow>
   \<not> counts_ok (fst (audit_one_with h evs p md timeout ie ve t0 t1 cs))"
  using status_cases [of h evs p md timeout ie ve t0 t1 cs]
  by (auto simp add: counts_ok_def counts_bad_def lit_eq_iff)

lemma classified_count:
  "\<forall>r \<in> set rs. counts_ok r \<noteq> counts_bad r \<Longrightarrow>
   length (filter counts_ok rs) + length (filter counts_bad rs) = length rs"
  by (induction rs) auto

lemma verdicts_classified:
  "\<forall>r \<in> set (take k (verdicts h evs md timeout ie ve completed)). counts_ok r \<noteq> counts_bad r"
proof
  fix r assume "r \<in> set (take k (verdicts h evs md timeout ie ve completed))"
  then have "r \<in> set (verdicts h evs md timeout ie ve completed)"
    by (rule in_set_takeD)
  then show "counts_ok r \<noteq> counts_bad r"
    by (auto simp add: verdicts_def verdict_classified)
qed

lemma aggregate_take:
  "k \<le> length rs \<Longrightarrow>
   checked (aggregate (take k rs)) = int k \<and>
   ok_count (aggregate (take k rs)) = int (length (filter counts_ok (take k rs))) \<and>
   bad_count (aggregate (take k rs)) = int (length (filter counts_bad (take k rs))) \<and>
   damaged_list (aggregate (take k rs)) = filter counts_bad (take k rs)"
  using foldl_tally_step [of tally0 "take k rs"]
  by (simp add: aggregate_def tally0_def min_def)

lemma example_verdicts:
  "verdicts late_bloomer (source_evaluators late_bloomer) (lit ''medium'') 120
     DEFAULT_IMAGE_EXTS DEFAULT_VIDEO_EXTS [(note_txt, 0, 0), (clip, 0, 1)] =
   [\<lparr>path = note_txt, ok = True, status = lit ''skipped'',
      reason = lit ''unsupported extension'', mode = lit ''medium'', duration_ms = 0\<rparr>,
    fst (audit_one late_bloomer clip (lit ''medium'') 120 DEFAULT_IMAGE_EXTS
      DEFAULT_VIDEO_EXTS 0 1 [])]"
  by (simp add: verdicts_def audit_one_unsupported [OF note_unsupported2] audit_one_def
      elapsed_ms_def)

lemma example_damaged:
  "status (fst (audit_one late_bloomer clip (lit ''medium'') 120 DEFAULT_IMAGE_EXTS
      DEFAULT_VIDEO_EXTS 0 1 [])) = lit ''damaged''"
  "\<not> ok (fst (audit_one late_bloomer clip (lit ''medium'') 120 DEFAULT_IMAGE_EXTS
      DEFAULT_VIDEO_EXTS 0 1 []))"
  "path (fst (audit_one late_bloomer clip (lit ''medium'') 120 DEFAULT_IMAGE_EXTS
      DEFAULT_VIDEO_EXTS 0 1 [])) = clip"
  by (simp_all add: audit_one_medium [OF clip_supported(1)] late_bloomer_checks)

section \<open>Process Runner: text decoding\<close>

text \<open>
  C8, as amended. For every host and every sequence of captured bytes, decoding returns a
  string and never raises: the result is that of the first codec that accepts the bytes
  in the order UTF-8, preferred encoding, GBK, CP936, Latin-1; Latin-1 accepts every byte
  sequence, so the replacing decoder after the loop is never reached, whatever it does.
\<close>

theorem decode_total:
  "decode h buf =
     Inr (case utf_8 h buf of Some s \<Rightarrow> s | None \<Rightarrow>
          (case preferred h buf of Some s \<Rightarrow> s | None \<Rightarrow>
          (case gbk h buf of Some s \<Rightarrow> s | None \<Rightarrow>
          (case cp936 h buf of Some s \<Rightarrow> s | None \<Rightarrow> map unat buf))))"
  by (simp add: decode_def latin_1_def split: option.splits)

text \<open>
  C8 as the claim words its chain (the replacing decoder right after the East-Asian
  codecs) fails on the lone byte 255: the source answers with the Latin-1 reading
  U+00FF, the chain of the claim with the replacement character U+FFFD.
\<close>

theorem decode_chain_counterexample:
  "decode (example_host True True True no_procs) [255] = Inr [255] \<and>
   decode_as_specified (example_host True True True no_procs) [255] = Inr [65533]"
  by (simp add: decode_def decode_as_specified_def example_host_def ascii_codec_def
      replacing_codec_def latin_1_def)

section \<open>File Auditor: the tier policies\<close>

text \<open>
  C1. For a supported file audited at the Slow tier, the probe, the first-frame decode and
  the full decode are all run (every available tool is launched, in this order, and the
  reason embeds the three diagnostics), and \<open>ok\<close> is the result of the full decode
  alone. There is an outcome combination in which the probe and the first-frame decode
  both fail and the Slow verdict still passes.
\<close>

theorem slow_verdict_is_full_decode:
  assumes "supported h p image_exts video_exts"
  shows "ok (fst (audit_one h p (lit ''slow'') timeout image_exts video_exts t0 t1 cs)) =
           passed (check_full_decode h p timeout cs')
       \<and> status (fst (audit_one h p (lit ''slow'') timeout image_exts video_exts t0 t1 cs)) =
           (if passed (check_full_decode h p timeout cs') then lit ''ok'' else lit ''damaged'')
       \<and> snd (audit_one h p (lit ''slow'') timeout image_exts video_exts t0 t1 cs) =
           cs @ probe_calls h p @ ffmpeg_calls h (first_frame_cmd p) @
             ffmpeg_calls h (full_decode_cmd p)
       \<and> reason (fst (audit_one h p (lit ''slow'') timeout image_exts video_exts t0 t1 cs)) =
           SLOW_BASIS @ lit '' | fast: '' @ diagnostic (check_fast h p timeout cs') @
             lit '' | first-frame: '' @ diagnostic (check_decode_first_frame h p timeout cs') @
             lit '' | full: '' @ diagnostic (check_full_decode h p timeout cs')
       \<and> (\<exists>h' p' ie ve.
             supported h' p' ie ve \<and> \<not> passed (check_fast h' p' timeout []) \<and>
             \<not> passed (check_decode_first_frame h' p' timeout []) \<and>
             ok (fst (audit_one h' p' (lit ''slow'') timeout ie ve t0 t1 [])))"
proof -
  have general:
    "audit_one h p (lit ''slow'') timeout image_exts video_exts t0 t1 cs =
       (\<lparr>path = p, ok = passed (check_full_decode h p timeout cs'),
         status = (if passed (check_full_decode h p timeout cs') then lit ''ok''
                   else lit ''damaged''),
         reason = SLOW_BASIS @ lit '' | fast: '' @ diagnostic (check_fast h p timeout cs') @
           lit '' | first-frame: '' @ diagnostic (check_decode_first_frame h p timeout cs') @
           lit '' | full: '' @ diagnostic (check_full_decode h p timeout cs'),
         mode = lit ''slow'', duration_ms = elapsed_ms t0 t1\<rparr>,
        cs @ probe_calls h p @ ffmpeg_calls h (first_frame_cmd p) @
          ffmpeg_calls h (full_decode_cmd p))"
    using assms
    by (simp add: audit_one_slow check_full_ok check_fast_diag check_first_diag
        check_full_diag)
  have "ok (fst (audit_one late_bloomer clip (lit ''slow'') timeout DEFAULT_IMAGE_EXTS
              DEFAULT_VIDEO_EXTS t0 t1 []))"
    by (simp add: audit_one_slow clip_supported late_bloomer_checks)
  then have particular:
    "\<exists>h' p' ie ve.
       supported h' p' ie ve \<and> \<not> passed (check_fast h' p' timeout []) \<and>
       \<not> passed (check_decode_first_frame h' p' timeout []) \<and>
       ok (fst (audit_one h' p' (lit ''slow'') timeout ie ve t0 t1 []))"
    using clip_supported(1) late_bloomer_checks(1,2) by blast
  show ?thesis
    using particular by (simp add: general)
qed

theorem slow_verdict_is_full_decode_witness:
  "supported late_bloomer clip DEFAULT_IMAGE_EXTS DEFAULT_VIDEO_EXTS \<and>
   \<not> passed (check_fast late_bloomer clip 120 []) \<and>
   \<not> passed (check_decode_first_frame late_bloomer clip 120 []) \<and>
   ok (fst (audit_one late_bloomer clip (lit ''slow'') 120 DEFAULT_IMAGE_EXTS
         DEFAULT_VIDEO_EXTS 0 0 [])) \<and>
   status (fst (audit_one late_bloomer clip (lit ''slow'') 120 DEFAULT_IMAGE_EXTS
         DEFAULT_VIDEO_EXTS 0 0 [])) = lit ''ok'' \<and>
   snd (audit_one late_bloomer clip (lit ''slow'') 120 DEFAULT_IMAGE_EXTS
         DEFAULT_VIDEO_EXTS 0 0 []) =
     [ffprobe_cmd clip, exiftool_cmd clip, first_frame_cmd clip, full_decode_cmd clip]"
  using slow_verdict_is_full_decode [OF clip_supported(1), of 120 0 0 "[]" "[]"]
  by (simp add: clip_supported late_bloomer_checks late_bloomer_flags probe_calls_def
      ffmpeg_calls_def)

text \<open>
  C3. For a supported file audited at the Medium tier, the first-frame decode is run
  whatever the probe answered (the decoder is launched whenever it is available), and
  \<open>ok\<close> is the conjunction of the probe result and the first-frame result.
\<close>

theorem medium_verdict_is_conjunction:
  assumes "supported h p image_exts video_exts"
  shows "ok (fst (audit_one h p (lit ''medium'') timeout image_exts video_exts t0 t1 cs)) =
           (passed (check_fast h p timeout cs') \<and>
            passed (check_decode_first_frame h p timeout cs'))
       \<and> status (fst (audit_one h p (lit ''medium'') timeout image_exts video_exts t0 t1 cs)) =
           (if passed (check_fast h p timeout cs') \<and>
               passed (check_decode_first_frame h p timeout cs')
            then lit ''ok'' else lit ''damaged'')
       \<and> snd (audit_one h p (lit ''medium'') timeout image_exts video_exts t0 t1 cs) =
           cs @ probe_calls h p @ ffmpeg_calls h (first_frame_cmd p)
       \<and> reason (fst (audit_one h p (lit ''medium'') timeout image_exts video_exts t0 t1 cs)) =
           MEDIUM_BASIS @ lit '' | fast: '' @ diagnostic (check_fast h p timeout cs') @
             lit '' | first-frame: '' @ diagnostic (check_decode_first_frame h p timeout cs')"
  using assms
  by (simp add: audit_one_medium check_fast_ok check_first_ok check_fast_diag
      check_first_diag)

theorem medium_verdict_is_conjunction_witness:
  "supported healthy clip DEFAULT_IMAGE_EXTS DEFAULT_VIDEO_EXTS \<and>
   ok (fst (audit_one healthy clip (lit ''medium'') 120 DEFAULT_IMAGE_EXTS
         DEFAULT_VIDEO_EXTS 0 0 [])) \<and>
   passed (check_fast healthy clip 120 []) \<and>
   passed (check_decode_first_frame healthy clip 120 []) \<and>
   supported late_bloomer clip DEFAULT_IMAGE_EXTS DEFAULT_VIDEO_EXTS \<and>
   \<not> passed (check_fast late_bloomer clip 120 []) \<and>
   \<not> ok (fst (audit_one late_bloomer clip (lit ''medium'') 120 DEFAULT_IMAGE_EXTS
         DEFAULT_VIDEO_EXTS 0 0 [])) \<and>
   snd (audit_one late_bloomer clip (lit ''medium'') 120 DEFAULT_IMAGE_EXTS
         DEFAULT_VIDEO_EXTS 0 0 []) =
     [ffprobe_cmd clip, exiftool_cmd clip, first_frame_cmd clip]"
  using medium_verdict_is_conjunction [OF clip_supported(2), of 120 0 0 "[]" "[]"]
    medium_verdict_is_conjunction [OF clip_supported(1), of 120 0 0 "[]" "[]"]
  by (simp add: clip_supported late_bloomer_checks healthy_checks late_bloomer_flags
      probe_calls_def ffmpeg_calls_def)

text \<open>
  C2, as amended. For a supported file audited at the Fast tier, \<open>ok\<close> holds exactly
  when an available tool succeeded cleanly: the probe tool with exit status 0 and an
  error stream that is empty once leading and trailing white space is stripped, or the
  metadata tool with exit status 0, such an error stream, and no \<^verbatim>\<open>Error\<close> token in
  its output. With neither tool available \<open>ok\<close> is false.
\<close>

theorem fast_verdict:
  assumes "supported h p image_exts video_exts"
  shows "ok (fst (audit_one h p (lit ''fast'') timeout image_exts video_exts t0 t1 cs)) =
           ((HAS_FFPROBE h \<and> returncode_of (outcome h (ffprobe_cmd p) timeout) = 0 \<and>
               strip (stderr_of (outcome h (ffprobe_cmd p) timeout)) = []) \<or>
            (HAS_EXIFTOOL h \<and> returncode_of (outcome h (exiftool_cmd p) timeout) = 0 \<and>
               strip (stderr_of (outcome h (exiftool_cmd p) timeout)) = [] \<and>
               \<not> contains (stdout_of (outcome h (exiftool_cmd p) timeout)) (lit ''Error'')))
       \<and> status (fst (audit_one h p (lit ''fast'') timeout image_exts video_exts t0 t1 cs)) =
           (if ok (fst (audit_one h p (lit ''fast'') timeout image_exts video_exts t0 t1 cs))
            then lit ''ok'' else lit ''damaged'')
       \<and> (\<not> HAS_FFPROBE h \<and> \<not> HAS_EXIFTOOL h \<longrightarrow>
            \<not> ok (fst (audit_one h p (lit ''fast'') timeout image_exts video_exts t0 t1 cs)))
       \<and> snd (audit_one h p (lit ''fast'') timeout image_exts video_exts t0 t1 cs) =
            cs @ probe_calls h p"
  using assms by (simp add: audit_one_fast check_fast_ok)

theorem fast_verdict_witness:
  "supported healthy clip DEFAULT_IMAGE_EXTS DEFAULT_VIDEO_EXTS \<and>
   ok (fst (audit_one healthy clip (lit ''fast'') 120 DEFAULT_IMAGE_EXTS
         DEFAULT_VIDEO_EXTS 0 0 [])) \<and>
   status (fst (audit_one healthy clip (lit ''fast'') 120 DEFAULT_IMAGE_EXTS
         DEFAULT_VIDEO_EXTS 0 0 [])) = lit ''ok'' \<and>
   supported toolless clip DEFAULT_IMAGE_EXTS DEFAULT_VIDEO_EXTS \<and>
   \<not> HAS_FFPROBE toolless \<and> \<not> HAS_EXIFTOOL toolless \<and>
   \<not> ok (fst (audit_one toolless clip (lit ''fast'') 120 DEFAULT_IMAGE_EXTS
         DEFAULT_VIDEO_EXTS 0 0 [])) \<and>
   status (fst (audit_one toolless clip (lit ''fast'') 120 DEFAULT_IMAGE_EXTS
         DEFAULT_VIDEO_EXTS 0 0 [])) = lit ''damaged''"
  using fast_verdict [OF clip_supported(2), of 120 0 0 "[]"]
    fast_verdict [OF other_supported(4), of 120 0 0 "[]"]
  by (simp add: clip_supported other_supported toolless_facts healthy_flags healthy_outcomes
      returncode_of_def stderr_of_def stdout_of_def strip_def contains_def)

text \<open>
  C2 as the claim words it (an empty error stream) fails when a tool exits with status 0
  and writes only a newline to its error stream: the source strips the text before it
  tests it, and passes the file.
\<close>

theorem fast_verdict_counterexample:
  "ok (fst (audit_one newline_host clip (lit ''fast'') 120 DEFAULT_IMAGE_EXTS
         DEFAULT_VIDEO_EXTS 0 0 [])) \<and>
   stderr_of (outcome newline_host (ffprobe_cmd clip) 120) = [10] \<and>
   \<not> fast_pass_as_specified newline_host clip 120"
  by (simp add: audit_one_fast other_supported newline_host_checks)

section \<open>Tier Evaluators: diagnostics\<close>

text \<open>
  C9, as amended. When the probe tool is available, the diagnostic of the probe
  evaluator includes the exit status of the probe run and the length of its error text
  after white space is stripped; the diagnostics of the first-frame and of the full
  decode are exactly such a text for the decoder run. For the metadata tool the
  diagnostic includes the exit status and whether the output has an \<^verbatim>\<open>Error\<close> token.
\<close>

theorem evaluator_diagnostics:
  "(HAS_FFPROBE h \<longrightarrow>
      contains (diagnostic (check_fast h p timeout cs))
        (lit ''ffprobe rc='' @ str_int (returncode_of (outcome h (ffprobe_cmd p) timeout)) @
         lit '' err_len='' @
         str_nat (length (strip (stderr_of (outcome h (ffprobe_cmd p) timeout)))))) \<and>
   (HAS_EXIFTOOL h \<longrightarrow>
      contains (diagnostic (check_fast h p timeout cs))
        (lit ''exiftool rc='' @ str_int (returncode_of (outcome h (exiftool_cmd p) timeout)) @
         lit '' has_error_token='' @
         str_bool (contains (stdout_of (outcome h (exiftool_cmd p) timeout)) (lit ''Error'')))) \<and>
   (HAS_FFMPEG h \<longrightarrow>
      diagnostic (check_decode_first_frame h p timeout cs) =
        lit ''ffmpeg[first-frame] rc='' @
        str_int (returncode_of (outcome h (first_frame_cmd p) timeout)) @ lit '' err_len='' @
        str_nat (length (strip (stderr_of (outcome h (first_frame_cmd p) timeout))))) \<and>
   (HAS_FFMPEG h \<longrightarrow>
      diagnostic (check_full_decode h p timeout cs) =
        lit ''ffmpeg[full-decode] rc='' @
        str_int (returncode_of (outcome h (full_decode_cmd p) timeout)) @ lit '' err_len='' @
        str_nat (length (strip (stderr_of (outcome h (full_decode_cmd p) timeout)))))"
proof -
  have probe: "contains (diagnostic (check_fast h p timeout cs)) (ffprobe_diag h p timeout)"
    unfolding check_fast_diag by (rule contains_left)
  have meta: "contains (diagnostic (check_fast h p timeout cs)) (exiftool_diag h p timeout)"
    unfolding check_fast_diag by (rule contains_right)
  have first: "HAS_FFMPEG h \<longrightarrow>
      diagnostic (check_decode_first_frame h p timeout cs) =
        lit ''ffmpeg[first-frame] rc='' @
        str_int (returncode_of (outcome h (first_frame_cmd p) timeout)) @ lit '' err_len='' @
        str_nat (length (strip (stderr_of (outcome h (first_frame_cmd p) timeout))))"
    by (simp add: check_first_diag ffmpeg_diag_def lit_def)
  have full: "HAS_FFMPEG h \<longrightarrow>
      diagnostic (check_full_decode h p timeout cs) =
        lit ''ffmpeg[full-decode] rc='' @
        str_int (returncode_of (outcome h (full_decode_cmd p) timeout)) @ lit '' err_len='' @
        str_nat (length (strip (stderr_of (outcome h (full_decode_cmd p) timeout))))"
    by (simp add: check_full_diag ffmpeg_diag_def lit_def)
  from probe meta first full show ?thesis
    unfolding ffprobe_diag_def exiftool_diag_def by (auto split: if_splits)
qed

theorem evaluator_diagnostics_witness:
  "HAS_FFPROBE late_bloomer \<and> HAS_EXIFTOOL late_bloomer \<and> HAS_FFMPEG late_bloomer \<and>
   contains (diagnostic (check_fast late_bloomer clip 120 [])) (lit ''ffprobe rc=1 err_len=19'') \<and>
   contains (diagnostic (check_fast late_bloomer clip 120 []))
     (lit ''exiftool rc=0 has_error_token=True'') \<and>
   diagnostic (check_decode_first_frame late_bloomer clip 120 []) =
     lit ''ffmpeg[first-frame] rc=124 err_len=36'' \<and>
   diagnostic (check_full_decode late_bloomer clip 120 []) =
     lit ''ffmpeg[full-decode] rc=0 err_len=0''"
  using evaluator_diagnostics [of late_bloomer clip 120 "[]"]
  by (simp add: late_bloomer_flags late_bloomer_outcomes str_int_def str_nat.simps
      str_bool_def text_defs)

text \<open>
  C9 as the claim words it fails for the metadata tool: with an error text of seven
  characters, the diagnostic of the probe evaluator does not contain the digit 7 at all.
\<close>

theorem evaluator_diagnostics_counterexample:
  "HAS_EXIFTOOL metadata_only \<and>
   stderr_of (outcome metadata_only (exiftool_cmd clip) 120) = lit ''warning'' \<and>
   length (stderr_of (outcome metadata_only (exiftool_cmd clip) 120)) = 7 \<and>
   length (strip (stderr_of (outcome metadata_only (exiftool_cmd clip) 120))) = 7 \<and>
   diagnostic (check_fast metadata_only clip 120 []) =
     lit ''ffprobe unavailable; exiftool rc=0 has_error_token=False'' \<and>
   \<not> contains (diagnostic (check_fast metadata_only clip 120 [])) (str_nat 7)"
  by (simp add: metadata_only_diag metadata_only_facts str_nat.simps text_defs)

section \<open>Process Runner: timeouts and launch failures\<close>

text \<open>
  C7, as amended. When the process does not exit within the timeout, the runner returns
  the status 124 with the text \<^verbatim>\<open>Timeout: ...\<close>; when it cannot be launched, the
  status 125 with the text \<^verbatim>\<open>Exception: ...\<close>; it raises in neither case. A check
  whose process timed out does not pass, and the verdict is \<^verbatim>\<open>damaged\<close> whenever the
  timed-out check decides the tier: at Fast when every available probing tool timed out,
  at Medium when that holds or the first-frame decode timed out, at Slow when the full
  decode timed out.
\<close>

theorem timeout_handling:
  "(subprocess_run h cmd timeout = TimeoutExpired msg \<longrightarrow>
      run h cmd timeout cs = ((124, [], lit ''Timeout: '' @ msg), cs @ [cmd])) \<and>
   (subprocess_run h cmd timeout = Raised r \<longrightarrow>
      run h cmd timeout cs = ((125, [], lit ''Exception: '' @ r), cs @ [cmd])) \<and>
   (probes_timed_out h p timeout \<longrightarrow> \<not> passed (check_fast h p timeout cs)) \<and>
   (timed_out h (first_frame_cmd p) timeout \<longrightarrow>
      \<not> passed (check_decode_first_frame h p timeout cs)) \<and>
   (timed_out h (full_decode_cmd p) timeout \<longrightarrow>
      \<not> passed (check_full_decode h p timeout cs)) \<and>
   (supported h p image_exts video_exts \<and> probes_timed_out h p timeout \<longrightarrow>
      status (fst (audit_one h p (lit ''fast'') timeout image_exts video_exts t0 t1 cs)) =
        lit ''damaged'' \<and>
      \<not> ok (fst (audit_one h p (lit ''fast'') timeout image_exts video_exts t0 t1 cs))) \<and>
   (supported h p image_exts video_exts \<and>
    (probes_timed_out h p timeout \<or> timed_out h (first_frame_cmd p) timeout) \<longrightarrow>
      status (fst (audit_one h p (lit ''medium'') timeout image_exts video_exts t0 t1 cs)) =
        lit ''damaged'' \<and>
      \<not> ok (fst (audit_one h p (lit ''medium'') timeout image_exts video_exts t0 t1 cs))) \<and>
   (supported h p image_exts video_exts \<and> timed_out h (full_decode_cmd p) timeout \<longrightarrow>
      status (fst (audit_one h p (lit ''slow'') timeout image_exts video_exts t0 t1 cs)) =
        lit ''damaged'' \<and>
      \<not> ok (fst (audit_one h p (lit ''slow'') timeout image_exts video_exts t0 t1 cs)))"
proof -
  have runner:
    "subprocess_run h cmd timeout = TimeoutExpired msg \<longrightarrow>
       run h cmd timeout cs = ((124, [], lit ''Timeout: '' @ msg), cs @ [cmd])"
    "subprocess_run h cmd timeout = Raised r \<longrightarrow>
       run h cmd timeout cs = ((125, [], lit ''Exception: '' @ r), cs @ [cmd])"
    by (simp_all add: run_def)
  have verdicts:
    "supported h p image_exts video_exts \<and> probes_timed_out h p timeout \<longrightarrow>
      status (fst (audit_one h p (lit ''fast'') timeout image_exts video_exts t0 t1 cs)) =
        lit ''damaged'' \<and>
      \<not> ok (fst (audit_one h p (lit ''fast'') timeout image_exts video_exts t0 t1 cs))"
    "supported h p image_exts video_exts \<and>
     (probes_timed_out h p timeout \<or> timed_out h (first_frame_cmd p) timeout) \<longrightarrow>
      status (fst (audit_one h p (lit ''medium'') timeout image_exts video_exts t0 t1 cs)) =
        lit ''damaged'' \<and>
      \<not> ok (fst (audit_one h p (lit ''medium'') timeout image_exts video_exts t0 t1 cs))"
    "supported h p image_exts video_exts \<and> timed_out h (full_decode_cmd p) timeout \<longrightarrow>
      status (fst (audit_one h p (lit ''slow'') timeout image_exts video_exts t0 t1 cs)) =
        lit ''damaged'' \<and>
      \<not> ok (fst (audit_one h p (lit ''slow'') timeout image_exts video_exts t0 t1 cs))"
    by (auto simp add: audit_one_fast audit_one_medium audit_one_slow timed_out_checks)
  from runner verdicts timed_out_checks [of h p timeout cs] show ?thesis
    by blast
qed

theorem timeout_handling_witness:
  "run all_timeouts (ffprobe_cmd clip) 120 [] =
     ((124, [], lit ''Timeout: '' @ lit ''timed out after 120 seconds''), [ffprobe_cmd clip]) \<and>
   run toolless (ffprobe_cmd clip) 120 [] =
     ((125, [], lit ''Exception: '' @ lit ''FileNotFoundError()''), [ffprobe_cmd clip]) \<and>
   supported all_timeouts clip DEFAULT_IMAGE_EXTS DEFAULT_VIDEO_EXTS \<and>
   probes_timed_out all_timeouts clip 120 \<and>
   timed_out all_timeouts (first_frame_cmd clip) 120 \<and>
   timed_out all_timeouts (full_decode_cmd clip) 120 \<and>
   \<not> passed (check_fast all_timeouts clip 120 []) \<and>
   \<not> passed (check_decode_first_frame all_timeouts clip 120 []) \<and>
   \<not> passed (check_full_decode all_timeouts clip 120 []) \<and>
   status (fst (audit_one all_timeouts clip (lit ''fast'') 120 DEFAULT_IMAGE_EXTS
         DEFAULT_VIDEO_EXTS 0 0 [])) = lit ''damaged'' \<and>
   status (fst (audit_one all_timeouts clip (lit ''medium'') 120 DEFAULT_IMAGE_EXTS
         DEFAULT_VIDEO_EXTS 0 0 [])) = lit ''damaged'' \<and>
   status (fst (audit_one all_timeouts clip (lit ''slow'') 120 DEFAULT_IMAGE_EXTS
         DEFAULT_VIDEO_EXTS 0 0 [])) = lit ''damaged''"
  using timeout_handling [of all_timeouts "ffprobe_cmd clip" 120 "lit ''timed out after 120 seconds''"
      "[]" "lit ''x''" clip DEFAULT_IMAGE_EXTS DEFAULT_VIDEO_EXTS 0 0]
    timeout_handling [of toolless "ffprobe_cmd clip" 120 "lit ''x''"
      "[]" "lit ''FileNotFoundError()''" clip DEFAULT_IMAGE_EXTS DEFAULT_VIDEO_EXTS 0 0]
  by (simp add: all_timeouts_facts toolless_run other_supported)

text \<open>
  C7 as the claim words it (no verdict derived from a timeout is \<^verbatim>\<open>ok\<close>) fails at the
  Fast tier when the probe tool times out and the metadata tool is clean: one clean tool
  is enough there.
\<close>

theorem timeout_handling_counterexample:
  "timed_out slow_probe (ffprobe_cmd clip) 120 \<and>
   outcome slow_probe (ffprobe_cmd clip) 120 =
     (124, [], lit ''Timeout: timed out after 120 seconds'') \<and>
   snd (audit_one slow_probe clip (lit ''fast'') 120 DEFAULT_IMAGE_EXTS DEFAULT_VIDEO_EXTS
         0 0 []) = [ffprobe_cmd clip, exiftool_cmd clip] \<and>
   status (fst (audit_one slow_probe clip (lit ''fast'') 120 DEFAULT_IMAGE_EXTS
         DEFAULT_VIDEO_EXTS 0 0 [])) = lit ''ok'' \<and>
   ok (fst (audit_one slow_probe clip (lit ''fast'') 120 DEFAULT_IMAGE_EXTS
         DEFAULT_VIDEO_EXTS 0 0 []))"
  by (simp add: audit_one_fast other_supported slow_probe_checks slow_probe_facts
      probe_calls_def)

section \<open>File Auditor: invariants of a verdict\<close>

text \<open>
  C4. Whatever the evaluators do, the verdict of \<^verbatim>\<open>audit_one\<close> has the status
  \<^verbatim>\<open>skipped\<close> exactly when the extension of the file is in neither extension set, and
  then \<open>ok\<close> is true; with the status \<^verbatim>\<open>damaged\<close> or \<^verbatim>\<open>error\<close>, \<open>ok\<close> is false;
  and the recorded mode is the requested one.
\<close>

theorem verdict_invariants:
  "(status (fst (audit_one_with h evs p md timeout ie ve t0 t1 cs)) = lit ''skipped'' \<longleftrightarrow>
      \<not> supported h p ie ve) \<and>
   (\<not> supported h p ie ve \<longrightarrow> ok (fst (audit_one_with h evs p md timeout ie ve t0 t1 cs))) \<and>
   (status (fst (audit_one_with h evs p md timeout ie ve t0 t1 cs)) = lit ''damaged'' \<or>
    status (fst (audit_one_with h evs p md timeout ie ve t0 t1 cs)) = lit ''error'' \<longrightarrow>
      \<not> ok (fst (audit_one_with h evs p md timeout ie ve t0 t1 cs))) \<and>
   mode (fst (audit_one_with h evs p md timeout ie ve t0 t1 cs)) = md"
  using status_cases [of h evs p md timeout ie ve t0 t1 cs] mode_kept [of h evs p md timeout ie ve t0 t1 cs]
  by (auto simp add: lit_eq_iff)

theorem verdict_invariants_witness:
  "\<not> supported healthy note_txt DEFAULT_IMAGE_EXTS DEFAULT_VIDEO_EXTS \<and>
   status (fst (audit_one_with healthy (source_evaluators healthy) note_txt (lit ''slow'') 120
     DEFAULT_IMAGE_EXTS DEFAULT_VIDEO_EXTS 0 0 [])) = lit ''skipped'' \<and>
   ok (fst (audit_one_with healthy (source_evaluators healthy) note_txt (lit ''slow'') 120
     DEFAULT_IMAGE_EXTS DEFAULT_VIDEO_EXTS 0 0 [])) \<and>
   mode (fst (audit_one_with healthy (source_evaluators healthy) note_txt (lit ''slow'') 120
     DEFAULT_IMAGE_EXTS DEFAULT_VIDEO_EXTS 0 0 [])) = lit ''slow'' \<and>
   status (fst (audit_one_with late_bloomer (source_evaluators late_bloomer) clip
     (lit ''medium'') 120 DEFAULT_IMAGE_EXTS DEFAULT_VIDEO_EXTS 0 0 [])) = lit ''damaged'' \<and>
   \<not> ok (fst (audit_one_with late_bloomer (source_evaluators late_bloomer) clip
     (lit ''medium'') 120 DEFAULT_IMAGE_EXTS DEFAULT_VIDEO_EXTS 0 0 [])) \<and>
   status (fst (audit_one_with healthy (faulty healthy) clip
     (lit ''medium'') 120 DEFAULT_IMAGE_EXTS DEFAULT_VIDEO_EXTS 0 0 [])) = lit ''error'' \<and>
   \<not> ok (fst (audit_one_with healthy (faulty healthy) clip
     (lit ''medium'') 120 DEFAULT_IMAGE_EXTS DEFAULT_VIDEO_EXTS 0 0 []))"
proof -
  have damaged: "status (fst (audit_one_with late_bloomer (source_evaluators late_bloomer) clip
     (lit ''medium'') 120 DEFAULT_IMAGE_EXTS DEFAULT_VIDEO_EXTS 0 0 [])) = lit ''damaged''"
    using audit_one_medium [OF clip_supported(1), of 120 0 0 "[]"]
    by (simp add: audit_one_def late_bloomer_checks)
  have faulted: "status (fst (audit_one_with healthy (faulty healthy) clip
     (lit ''medium'') 120 DEFAULT_IMAGE_EXTS DEFAULT_VIDEO_EXTS 0 0 [])) = lit ''error''"
    by (simp add: audit_one_with_caught [OF faulty_try])
  show ?thesis
    using damaged faulted note_unsupported
      verdict_invariants [of healthy "source_evaluators healthy" note_txt "lit ''slow''" 120
        DEFAULT_IMAGE_EXTS DEFAULT_VIDEO_EXTS 0 0 "[]"]
      verdict_invariants [of late_bloomer "source_evaluators late_bloomer" clip "lit ''medium''" 120
        DEFAULT_IMAGE_EXTS DEFAULT_VIDEO_EXTS 0 0 "[]"]
      verdict_invariants [of healthy "faulty healthy" clip "lit ''medium''" 120
        DEFAULT_IMAGE_EXTS DEFAULT_VIDEO_EXTS 0 0 "[]"]
    by simp
qed

section \<open>File Auditor: faults\<close>



section \<open>File Auditor: determinism\<close>

text \<open>
  C10. Two audits of the same file at the same tier, on hosts with the same tool
  availability, the same results of the four tool runs and the same classification of
  the file's extension, give the same \<open>ok\<close>, the same status and the same reason,
  whatever the clock readings and the calls made before.
\<close>

theorem audit_deterministic:
  assumes "HAS_FFPROBE h = HAS_FFPROBE h'" and "HAS_FFMPEG h = HAS_FFMPEG h'"
    and "HAS_EXIFTOOL h = HAS_EXIFTOOL h'"
    and "\<forall>cmd \<in> set [ffprobe_cmd p, exiftool_cmd p, first_frame_cmd p, full_decode_cmd p].
           outcome h cmd timeout = outcome h' cmd timeout"
    and "supported h p ie ve = supported h' p ie ve"
  shows "ok (fst (audit_one h p md timeout ie ve t0 t1 cs)) =
           ok (fst (audit_one h' p md timeout ie ve t0' t1' cs'))
       \<and> status (fst (audit_one h p md timeout ie ve t0 t1 cs)) =
           status (fst (audit_one h' p md timeout ie ve t0' t1' cs'))
       \<and> reason (fst (audit_one h p md timeout ie ve t0 t1 cs)) =
           reason (fst (audit_one h' p md timeout ie ve t0' t1' cs'))"
  using assms
  by (simp add: audit_one_eq Let_def check_fast_ok check_first_ok check_full_ok
      check_fast_diag check_first_diag check_full_diag ffprobe_diag_def exiftool_diag_def
      ffmpeg_diag_def)


theorem audit_deterministic_witness:
  "HAS_FFPROBE healthy = HAS_FFPROBE (healthy\<lparr>str_lower := (\<lambda>s. s)\<rparr>) \<and>
   outcome healthy (ffprobe_cmd clip) 120 =
     outcome (healthy\<lparr>str_lower := (\<lambda>s. s)\<rparr>) (ffprobe_cmd clip) 120 \<and>
   supported healthy clip DEFAULT_IMAGE_EXTS DEFAULT_VIDEO_EXTS =
     supported (healthy\<lparr>str_lower := (\<lambda>s. s)\<rparr>) clip DEFAULT_IMAGE_EXTS DEFAULT_VIDEO_EXTS \<and>
   ok (fst (audit_one healthy clip (lit ''slow'') 120 DEFAULT_IMAGE_EXTS DEFAULT_VIDEO_EXTS
         0 0 [])) =
     ok (fst (audit_one (healthy\<lparr>str_lower := (\<lambda>s. s)\<rparr>) clip (lit ''slow'') 120
         DEFAULT_IMAGE_EXTS DEFAULT_VIDEO_EXTS 5 (29 / 4) [[lit ''ffmpeg'']])) \<and>
   status (fst (audit_one healthy clip (lit ''slow'') 120 DEFAULT_IMAGE_EXTS DEFAULT_VIDEO_EXTS
         0 0 [])) =
     status (fst (audit_one (healthy\<lparr>str_lower := (\<lambda>s. s)\<rparr>) clip (lit ''slow'') 120
         DEFAULT_IMAGE_EXTS DEFAULT_VIDEO_EXTS 5 (29 / 4) [[lit ''ffmpeg'']])) \<and>
   duration_ms (fst (audit_one healthy clip (lit ''slow'') 120 DEFAULT_IMAGE_EXTS
         DEFAULT_VIDEO_EXTS 0 0 [])) = 0 \<and>
   duration_ms (fst (audit_one (healthy\<lparr>str_lower := (\<lambda>s. s)\<rparr>) clip (lit ''slow'') 120
         DEFAULT_IMAGE_EXTS DEFAULT_VIDEO_EXTS 5 (29 / 4) [[lit ''ffmpeg'']])) = 2250"
proof -
  have same_decode: "decode (healthy\<lparr>str_lower := (\<lambda>s. s)\<rparr>) = decode healthy"
    by (rule ext)+ (simp add: decode_def cong: option.case_cong)
  have same_outcome: "outcome (healthy\<lparr>str_lower := (\<lambda>s. s)\<rparr>) cmd t = outcome healthy cmd t" for cmd t
    unfolding outcome_def run_def same_decode by simp
  have same_flags: "HAS_FFPROBE (healthy\<lparr>str_lower := (\<lambda>s. s)\<rparr>) = HAS_FFPROBE healthy"
    "HAS_FFMPEG (healthy\<lparr>str_lower := (\<lambda>s. s)\<rparr>) = HAS_FFMPEG healthy"
    "HAS_EXIFTOOL (healthy\<lparr>str_lower := (\<lambda>s. s)\<rparr>) = HAS_EXIFTOOL healthy"
    by simp_all
  have sup: "supported (healthy\<lparr>str_lower := (\<lambda>s. s)\<rparr>) clip DEFAULT_IMAGE_EXTS DEFAULT_VIDEO_EXTS"
    by (simp add: supported_def is_image_def is_video_def healthy_def
      example_host_def clip_def name_suffix_def DEFAULT_IMAGE_EXTS_def
      DEFAULT_VIDEO_EXTS_def lit_def)
  have durations:
    "duration_ms (fst (audit_one healthy clip (lit ''slow'') 120 DEFAULT_IMAGE_EXTS
         DEFAULT_VIDEO_EXTS 0 0 [])) = 0"
    "duration_ms (fst (audit_one (healthy\<lparr>str_lower := (\<lambda>s. s)\<rparr>) clip (lit ''slow'') 120
         DEFAULT_IMAGE_EXTS DEFAULT_VIDEO_EXTS 5 (29 / 4) [[lit ''ffmpeg'']])) = 2250"
    by (simp_all add: audit_one_slow clip_supported sup elapsed_ms_def)
  show ?thesis
    using audit_deterministic [of healthy "healthy\<lparr>str_lower := (\<lambda>s. s)\<rparr>" clip 120
        DEFAULT_IMAGE_EXTS DEFAULT_VIDEO_EXTS "lit ''slow''" 0 0 "[]" 5 "29 / 4" "[[lit ''ffmpeg'']]"]
    by (simp add: same_outcome same_flags sup clip_supported durations)
qed

section \<open>Scheduler/Aggregator: the running tally\<close>

text \<open>
  C5. Let every submitted file complete once, in any order, and look at the tally after
  the first \<open>k\<close> completions. Then \<open>checked\<close> is \<open>k\<close>, it is the sum of the ok and
  bad counters, and it does not exceed the number of files; the next completion raises it
  by exactly 1; the ok counter counts the verdicts with status \<^verbatim>\<open>ok\<close>, or
  \<^verbatim>\<open>skipped\<close> and passed, the bad counter those with status \<^verbatim>\<open>damaged\<close> or
  \<^verbatim>\<open>error\<close>, and the damaged list holds exactly the latter, in their order of
  completion; after the last completion \<open>checked\<close> is the number of files.
\<close>

theorem run_tally_invariant:
  assumes "mset (map fst completed) = mset all_files" and "k \<le> length completed"
  shows "checked (aggregate (take k (verdicts h evs md timeout ie ve completed))) = int k
    \<and> checked (aggregate (take k (verdicts h evs md timeout ie ve completed))) =
        ok_count (aggregate (take k (verdicts h evs md timeout ie ve completed))) +
        bad_count (aggregate (take k (verdicts h evs md timeout ie ve completed)))
    \<and> checked (aggregate (take k (verdicts h evs md timeout ie ve completed))) \<le>
        int (length all_files)
    \<and> (k < length completed \<longrightarrow>
        checked (aggregate (take (Suc k) (verdicts h evs md timeout ie ve completed))) =
        checked (aggregate (take k (verdicts h evs md timeout ie ve completed))) + 1)
    \<and> ok_count (aggregate (take k (verdicts h evs md timeout ie ve completed))) =
        int (length (filter counts_ok (take k (verdicts h evs md timeout ie ve completed))))
    \<and> bad_count (aggregate (take k (verdicts h evs md timeout ie ve completed))) =
        int (length (filter counts_bad (take k (verdicts h evs md timeout ie ve completed))))
    \<and> damaged_list (aggregate (take k (verdicts h evs md timeout ie ve completed))) =
        filter counts_bad (take k (verdicts h evs md timeout ie ve completed))
    \<and> checked (aggregate (verdicts h evs md timeout ie ve completed)) = int (length all_files)"
proof -
  let ?rs = "verdicts h evs md timeout ie ve completed"
  have len: "length ?rs = length completed"
    by (simp add: verdicts_def)
  have total: "length completed = length all_files"
    using assms(1) by (metis length_map size_mset)
  have k: "k \<le> length ?rs"
    using assms(2) len by simp
  note at_k = aggregate_take [OF k]
  have split: "length (filter counts_ok (take k ?rs)) + length (filter counts_bad (take k ?rs)) = k"
    using classified_count [OF verdicts_classified, of k h evs md timeout ie ve completed] k
    by simp
  have sum: "checked (aggregate (take k ?rs)) =
      ok_count (aggregate (take k ?rs)) + bad_count (aggregate (take k ?rs))"
    using at_k split by linarith
  have next_k: "k < length completed \<longrightarrow>
      checked (aggregate (take (Suc k) ?rs)) = checked (aggregate (take k ?rs)) + 1"
    using aggregate_take [of "Suc k" ?rs] at_k len by simp
  have final: "checked (aggregate ?rs) = int (length all_files)"
    using aggregate_take [of "length ?rs" ?rs] len total by simp
  from at_k sum next_k final assms(2) total show ?thesis
    by simp
qed

theorem run_tally_invariant_witness:
  "mset (map fst [(note_txt, 0::real, 0::real), (clip, 0, 1)]) = mset [clip, note_txt] \<and>
   (1::nat) \<le> length [(note_txt, 0::real, 0::real), (clip, 0, 1)] \<and>
   checked (aggregate (take 1 (verdicts late_bloomer (source_evaluators late_bloomer)
     (lit ''medium'') 120 DEFAULT_IMAGE_EXTS DEFAULT_VIDEO_EXTS
     [(note_txt, 0, 0), (clip, 0, 1)]))) = 1 \<and>
   ok_count (aggregate (take 1 (verdicts late_bloomer (source_evaluators late_bloomer)
     (lit ''medium'') 120 DEFAULT_IMAGE_EXTS DEFAULT_VIDEO_EXTS
     [(note_txt, 0, 0), (clip, 0, 1)]))) = 1 \<and>
   bad_count (aggregate (take 1 (verdicts late_bloomer (source_evaluators late_bloomer)
     (lit ''medium'') 120 DEFAULT_IMAGE_EXTS DEFAULT_VIDEO_EXTS
     [(note_txt, 0, 0), (clip, 0, 1)]))) = 0 \<and>
   checked (aggregate (verdicts late_bloomer (source_evaluators late_bloomer)
     (lit ''medium'') 120 DEFAULT_IMAGE_EXTS DEFAULT_VIDEO_EXTS
     [(note_txt, 0, 0), (clip, 0, 1)])) = 2 \<and>
   ok_count (aggregate (verdicts late_bloomer (source_evaluators late_bloomer)
     (lit ''medium'') 120 DEFAULT_IMAGE_EXTS DEFAULT_VIDEO_EXTS
     [(note_txt, 0, 0), (clip, 0, 1)])) = 1 \<and>
   bad_count (aggregate (verdicts late_bloomer (source_evaluators late_bloomer)
     (lit ''medium'') 120 DEFAULT_IMAGE_EXTS DEFAULT_VIDEO_EXTS
     [(note_txt, 0, 0), (clip, 0, 1)])) = 1 \<and>
   map path (damaged_list (aggregate (verdicts late_bloomer (source_evaluators late_bloomer)
     (lit ''medium'') 120 DEFAULT_IMAGE_EXTS DEFAULT_VIDEO_EXTS
     [(note_txt, 0, 0), (clip, 0, 1)]))) = [clip]"
proof -
  have order: "mset (map fst [(note_txt, 0::real, 0::real), (clip, 0, 1)]) = mset [clip, note_txt]"
    by simp
  have counted:
    "counts_ok \<lparr>path = note_txt, ok = True, status = lit ''skipped'',
      reason = lit ''unsupported extension'', mode = lit ''medium'', duration_ms = 0\<rparr>"
    "\<not> counts_bad \<lparr>path = note_txt, ok = True, status = lit ''skipped'',
      reason = lit ''unsupported extension'', mode = lit ''medium'', duration_ms = 0\<rparr>"
    "\<not> counts_ok (fst (audit_one late_bloomer clip (lit ''medium'') 120 DEFAULT_IMAGE_EXTS
      DEFAULT_VIDEO_EXTS 0 1 []))"
    "counts_bad (fst (audit_one late_bloomer clip (lit ''medium'') 120 DEFAULT_IMAGE_EXTS
      DEFAULT_VIDEO_EXTS 0 1 []))"
    by (simp_all add: counts_ok_def counts_bad_def example_damaged lit_eq_iff)
  show ?thesis
    using run_tally_invariant [OF order, of 1 late_bloomer "source_evaluators late_bloomer"
        "lit ''medium''" 120 DEFAULT_IMAGE_EXTS DEFAULT_VIDEO_EXTS]
      run_tally_invariant [OF order, of 2 late_bloomer "source_evaluators late_bloomer"
        "lit ''medium''" 120 DEFAULT_IMAGE_EXTS DEFAULT_VIDEO_EXTS]
    by (simp add: example_verdicts counted example_damaged)
qed

end
